theory Spec2Isabelle
  imports Main
begin

section \<open>Python and numpy values\<close>

text \<open>
  The repository is one module, \<^verbatim>\<open>torch_datasets.py\<close>, with two map-style datasets:
  \<^verbatim>\<open>EdfDataset\<close> (an image directory beside a label directory) and
  \<^verbatim>\<open>CrowdDataset\<close> (a COCO annotation file). Everything that can raise in the source is
  a branch of the model: a result is \<open>Inl e\<close> for a raised exception and \<open>Inr v\<close> for
  a returned value.
\<close>

datatype py_error = ValueError | IndexError | KeyError | FileNotFoundError

text \<open>
  \<^verbatim>\<open>xs[i]\<close> on a Python list: a negative position counts from the end, a position
  outside the list raises \<^verbatim>\<open>IndexError\<close>.
\<close>

definition py_index :: "'a list \<Rightarrow> int \<Rightarrow> py_error + 'a" where
  "py_index xs i =
     (if 0 \<le> i \<and> i < int (length xs) then Inr (xs ! nat i)
      else if i < 0 \<and> - int (length xs) \<le> i then Inr (xs ! nat (int (length xs) + i))
      else Inl IndexError)"

text \<open>
  \<^verbatim>\<open>xs[a:b]\<close>: both bounds are shifted by the length when negative and then clamped
  to \<open>0 .. len\<close>; a slice never raises.
\<close>

definition py_bound :: "nat \<Rightarrow> int \<Rightarrow> nat" where
  "py_bound n a = (if a < 0 then nat (int n + a) else min n (nat a))"

definition py_slice :: "'a list \<Rightarrow> int \<Rightarrow> int \<Rightarrow> 'a list" where
  "py_slice xs a b = take (py_bound (length xs) b - py_bound (length xs) a) (drop (py_bound (length xs) a) xs)"

text \<open>
  \<^verbatim>\<open>os.path.join(a, b)\<close> on POSIX paths: an absolute second part replaces the first,
  otherwise the parts are joined by one slash unless the first is empty or ends in one.
\<close>

definition os_path_join :: "string \<Rightarrow> string \<Rightarrow> string" where
  "os_path_join a b =
     (if b \<noteq> [] \<and> hd b = CHR ''/'' then b
      else if a = [] \<or> last a = CHR ''/'' then a @ b
      else a @ ''/'' @ b)"

text \<open>
  A 2D numpy array is a list of rows, a 3D array a list of 2D arrays along its first
  axis. An instance mask is a 2D array of truth values (the \<^verbatim>\<open>uint8\<close> masks of
  pycocotools hold 0 and 1 only). A box is \<open>(x0, y0, x1, y1)\<close>, the column order the source
  reads with \<^verbatim>\<open>boxes[:, 0..3]\<close>. The source turns boxes into \<^verbatim>\<open>float32\<close> tensors.
  \<^verbatim>\<open>CrowdDataset\<close> only compares and passes on their entries, pixel indices, which
  \<^verbatim>\<open>float32\<close> holds exactly below \<open>2^24\<close>, and its model keeps them as integers.
  \<^verbatim>\<open>EdfDataset\<close> computes with them, and its model computes in \<^verbatim>\<open>float32\<close>.
\<close>

type_synonym mask = "bool list list"
type_synonym box = "int \<times> int \<times> int \<times> int"

definition shape2 :: "'a list list \<Rightarrow> nat \<times> nat" where
  "shape2 m = (length m, case m of [] \<Rightarrow> 0 | row # _ \<Rightarrow> length row)"

text \<open>
  \<^verbatim>\<open>np.dstack(ms)\<close> iterates over its argument, here a sequence of 2D arrays, turns each
  \<open>(H, W)\<close> array into \<open>(H, W, 1)\<close> and concatenates along the third axis: the result has
  shape \<open>(H, W, N)\<close> and holds at \<open>[r][c][k]\<close> the entry \<open>[r][c]\<close> of the \<open>k\<close>-th array.
  With nothing to concatenate, and with arrays of different shapes, numpy raises
  \<^verbatim>\<open>ValueError\<close>.
\<close>

definition np_dstack :: "'a list list list \<Rightarrow> py_error + 'a list list list" where
  "np_dstack ms =
     (case ms of
        [] \<Rightarrow> Inl ValueError
      | m # _ \<Rightarrow>
          if list_ex (\<lambda>m'. shape2 m' \<noteq> shape2 m) ms then Inl ValueError
          else Inr (map (\<lambda>r. map (\<lambda>c. map (\<lambda>m'. m' ! r ! c) ms) [0..<snd (shape2 m)])
                      [0..<fst (shape2 m)]))"

text \<open>
  \<^verbatim>\<open>t[keep]\<close> with a boolean tensor \<open>keep\<close>: the rows of \<open>t\<close> at the true positions;
  torch raises \<^verbatim>\<open>IndexError\<close> when \<open>keep\<close> is not as long as the first axis of \<open>t\<close>.
\<close>

definition bool_index :: "'a list \<Rightarrow> bool list \<Rightarrow> py_error + 'a list" where
  "bool_index t keep =
     (if length keep \<noteq> length t then Inl IndexError
      else Inr (map fst (filter snd (zip t keep))))"

section \<open>\<^verbatim>\<open>float32\<close> arithmetic on integers\<close>

text \<open>
  The \<^verbatim>\<open>float32\<close> tensors of \<^verbatim>\<open>EdfDataset.__getitem__\<close> are filled from integers and
  then only subtracted and multiplied, so each of their entries is an integer, an
  infinity or NaN. \<open>Finite n\<close> is the \<^verbatim>\<open>float32\<close> of value \<open>n\<close>; the two zeros of
  IEEE 754, which compare equal, are one value.
\<close>

datatype float32 = Finite int | PInf | NInf | NaN

text \<open>The number of binary digits of a positive integer.\<close>

function bit_length :: "int \<Rightarrow> nat" where
  "bit_length n = (if n \<le> 0 then 0 else Suc (bit_length (n div 2)))"
  by pat_completeness auto
termination
  by (relation "measure nat") auto

declare bit_length.simps [simp del]

text \<open>
  The conversion of an integer to \<^verbatim>\<open>float32\<close>, as \<^verbatim>\<open>torch.as_tensor(..., dtype=torch.float32)\<close>
  does it: the nearest value with 24 significant binary digits, a tie going to the one
  whose last digit is even, and an infinity from \<open>2^128 - 2^103\<close> on.
\<close>

definition float32_of_int :: "int \<Rightarrow> float32" where
  "float32_of_int n =
     (let m = \<bar>n\<bar>;
          e = bit_length m - 24;
          q = m div 2 ^ e;
          r = m mod 2 ^ e;
          q' = (if 2 ^ e < 2 * r \<or> (2 * r = 2 ^ e \<and> odd q) then q + 1 else q);
          v = q' * 2 ^ e
      in if 2 ^ 128 \<le> v then (if n < 0 then NInf else PInf)
         else Finite (if n < 0 then - v else v))"

text \<open>
  Subtraction and multiplication round the exact result; the cases with an infinity or
  NaN are those of IEEE 754.
\<close>

fun float32_sub :: "float32 \<Rightarrow> float32 \<Rightarrow> float32" where
  "float32_sub (Finite a) (Finite b) = float32_of_int (a - b)"
| "float32_sub NaN _ = NaN"
| "float32_sub _ NaN = NaN"
| "float32_sub PInf PInf = NaN"
| "float32_sub NInf NInf = NaN"
| "float32_sub PInf _ = PInf"
| "float32_sub NInf _ = NInf"
| "float32_sub _ PInf = NInf"
| "float32_sub _ NInf = PInf"

fun float32_mul :: "float32 \<Rightarrow> float32 \<Rightarrow> float32" where
  "float32_mul (Finite a) (Finite b) = float32_of_int (a * b)"
| "float32_mul NaN _ = NaN"
| "float32_mul _ NaN = NaN"
| "float32_mul PInf PInf = PInf"
| "float32_mul PInf NInf = NInf"
| "float32_mul NInf PInf = NInf"
| "float32_mul NInf NInf = PInf"
| "float32_mul PInf (Finite b) = (if b = 0 then NaN else if 0 < b then PInf else NInf)"
| "float32_mul NInf (Finite b) = (if b = 0 then NaN else if 0 < b then NInf else PInf)"
| "float32_mul (Finite a) PInf = (if a = 0 then NaN else if 0 < a then PInf else NInf)"
| "float32_mul (Finite a) NInf = (if a = 0 then NaN else if 0 < a then NInf else PInf)"

definition float32_box :: "box \<Rightarrow> float32 \<times> float32 \<times> float32 \<times> float32" where
  "float32_box b =
     (case b of (x0, y0, x1, y1) \<Rightarrow>
        (float32_of_int x0, float32_of_int y0, float32_of_int x1, float32_of_int y1))"

section \<open>The helpers of \<^verbatim>\<open>my_utils\<close>\<close>

text \<open>
  \<^verbatim>\<open>torch_datasets.py\<close> imports \<^verbatim>\<open>load_image_as_np_array\<close>,
  \<^verbatim>\<open>extract_masks_from_cluster\<close> and \<^verbatim>\<open>extract_bboxes_from_mask\<close> from
  \<^verbatim>\<open>my_utils\<close>, a module of the repository whose source is not at hand. The datasets
  below take the three functions as a parameter, so what is proved of the datasets holds
  for every implementation of the helpers; a helper may raise.
\<close>

record my_utils =
  util_load_image_as_np_array :: "string \<Rightarrow> py_error + int list list"
  util_extract_masks_from_cluster :: "int list list \<Rightarrow> py_error + mask list"
  util_extract_bboxes_from_mask :: "bool list list list \<Rightarrow> py_error + box list"

subsection \<open>The label-image decomposer\<close>

definition cluster_values :: "int list list \<Rightarrow> int list" where
  "cluster_values img = sort (remdups (filter (\<lambda>v. v \<noteq> 0) (concat img)))"

text \<open>
  Modelled from the spec: \<^verbatim>\<open>my_utils.extract_masks_from_cluster\<close> is missing from the
  sources. Spec 4.1: the input is a 2D integer grid in which each distinct nonzero value
  groups the pixels of one instance; the output is an ordered stack of boolean masks, one
  per distinct nonzero value, in ascending value order, each of the shape of the input,
  each derived from an equality test against the cluster identifier. The call in
  \<^verbatim>\<open>EdfDataset.__getitem__\<close> passes \<^verbatim>\<open>bool_array=True, ch_first=True\<close>: boolean masks,
  stacked along the first axis.
\<close>

definition extract_masks_from_cluster :: "int list list \<Rightarrow> mask list" where
  "extract_masks_from_cluster img = map (\<lambda>v. map (map (\<lambda>p. p = v)) img) (cluster_values img)"

subsection \<open>The bounding-box extractor\<close>

text \<open>The positions \<open>(row, column)\<close> of the true pixels of a mask, row by row.\<close>

definition true_pixels :: "mask \<Rightarrow> (nat \<times> nat) list" where
  "true_pixels m =
     concat (map (\<lambda>r. map (\<lambda>c. (r, c)) (filter (\<lambda>c. m ! r ! c) [0..<length (m ! r)]))
               [0..<length m])"

text \<open>
  Modelled from the spec: \<^verbatim>\<open>my_utils.extract_bboxes_from_mask\<close> is missing from the
  sources. Spec 4.2: one box per instance, \<open>x0\<close>/\<open>x1\<close> the min/max column index where the
  mask is true, \<open>y0\<close>/\<open>y1\<close> the min/max row index, \<open>x1\<close> and \<open>y1\<close> with the exclusive upper
  bound (max index + 1). For a mask with no true pixel the spec allows a failure or a
  zero-area sentinel box; the model takes the sentinel \<open>(0, 0, 0, 0)\<close>, the case the
  degenerate-box filter of \<^verbatim>\<open>CrowdDataset.__getitem__\<close> is written for.
\<close>

definition bbox_of_mask :: "mask \<Rightarrow> box" where
  "bbox_of_mask m =
     (let ps = true_pixels m in
      if ps = [] then (0, 0, 0, 0)
      else (int (Min (set (map snd ps))), int (Min (set (map fst ps))),
            int (Max (set (map snd ps))) + 1, int (Max (set (map fst ps))) + 1))"

text \<open>
  Both call sites hand the extractor \<^verbatim>\<open>np.dstack(...)\<close> of the instance masks, an array
  of shape \<open>(H, W, N)\<close>, so the extractor reads instance \<open>k\<close> as \<^verbatim>\<open>arr[:, :, k]\<close> and the
  number of instances as the length of the last axis.
\<close>

definition depth :: "'a list list list \<Rightarrow> nat" where
  "depth arr = (case arr of [] \<Rightarrow> 0 | row # _ \<Rightarrow> (case row of [] \<Rightarrow> 0 | v # _ \<Rightarrow> length v))"

definition channel :: "'a list list list \<Rightarrow> nat \<Rightarrow> 'a list list" where
  "channel arr k = map (map (\<lambda>v. v ! k)) arr"

definition extract_bboxes_from_mask :: "bool list list list \<Rightarrow> box list" where
  "extract_bboxes_from_mask arr = map (\<lambda>k. bbox_of_mask (channel arr k)) [0..<depth arr]"

section \<open>External collaborators\<close>

text \<open>
  PIL decodes image files. \<open>Image_open\<close> is \<^verbatim>\<open>Image.open(path)\<close>, which raises for a
  missing or unreadable file; \<open>Image_convert\<close> is \<^verbatim>\<open>image.convert(mode)\<close>. The decoded
  image is a value of any type \<open>'img\<close>: the datasets only pass it on.
\<close>

record 'img pil =
  Image_open :: "string \<Rightarrow> py_error + 'img"
  Image_convert :: "'img \<Rightarrow> string \<Rightarrow> 'img"

text \<open>
  pycocotools: an image record with its \<^verbatim>\<open>file_name\<close>, an annotation record with its
  \<^verbatim>\<open>id\<close>, \<^verbatim>\<open>iscrowd\<close> and \<^verbatim>\<open>area\<close> (a JSON number of any type \<open>'a\<close>, only ever
  copied), and the \<^verbatim>\<open>COCO\<close> object as the methods the source calls:
  \<^verbatim>\<open>getImgIds()\<close>, \<^verbatim>\<open>loadImgs(id)\<close> (a \<^verbatim>\<open>KeyError\<close> for an unknown id),
  \<^verbatim>\<open>getAnnIds(id)\<close>, \<^verbatim>\<open>loadAnns(ids)\<close> and \<^verbatim>\<open>annToMask(obj)\<close>, which decodes the
  segmentation of an annotation into a mask of its image's height and width.
\<close>

record img_obj =
  file_name :: string

record 'a annotation =
  ann_id :: int
  ann_iscrowd :: int
  ann_area :: 'a

record 'a COCO =
  getImgIds :: "int list"
  loadImgs :: "int \<Rightarrow> py_error + img_obj list"
  getAnnIds :: "int \<Rightarrow> int list"
  loadAnns :: "int list \<Rightarrow> 'a annotation list"
  annToMask :: "'a annotation \<Rightarrow> mask"

section \<open>The sample record\<close>

text \<open>
  The \<^verbatim>\<open>target\<close> dictionary both datasets build, with its six keys. \<open>masks\<close> is the
  \<^verbatim>\<open>uint8\<close> tensor of shape \<open>(N, H, W)\<close>, \<open>image_id\<close> a tensor with one entry. \<open>'b\<close> is
  the type of the entries of \<open>boxes\<close>, \<open>'a\<close> that of \<open>area\<close>.
\<close>

record ('b, 'a) target =
  boxes :: "('b \<times> 'b \<times> 'b \<times> 'b) list"
  labels :: "int list"
  masks :: "mask list"
  image_id :: "int list"
  area :: "'a list"
  iscrowd :: "int list"

text \<open>
  \<^verbatim>\<open>if self.transforms is not None: img, target = self.transforms(img, target)\<close>.
  Where a local variable of the source has the name of a constant of the logic
  (\<^verbatim>\<open>mask\<close>, \<^verbatim>\<open>image\<close>, \<^verbatim>\<open>image_id\<close>, \<^verbatim>\<open>subset\<close>) the model writes it with a prime.
\<close>

definition apply_transforms :: "('s \<Rightarrow> 's) option \<Rightarrow> 's \<Rightarrow> 's" where
  "apply_transforms tr s = (case tr of None \<Rightarrow> s | Some f \<Rightarrow> f s)"

section \<open>\<^verbatim>\<open>EdfDataset\<close>\<close>

text \<open>
  The object after \<^verbatim>\<open>__init__\<close>: the image paths and the label paths, each the sorted
  listing of its directory, and the optional transform (the attribute \<^verbatim>\<open>transforms\<close>).
\<close>

record 'img EdfDataset =
  img_paths :: "string list"
  mask_paths :: "string list"
  edf_transforms ::
    "('img \<times> (float32, float32) target \<Rightarrow> 'img \<times> (float32, float32) target) option"

text \<open>
  \<^verbatim>\<open>__getitem__\<close>, lines 39 to 43: the image, the instance masks of the label image and
  the array handed to the box extractor.
\<close>

definition EdfDataset_load ::
  "'img pil \<Rightarrow> my_utils \<Rightarrow> 'img EdfDataset \<Rightarrow> int
     \<Rightarrow> py_error + ('img \<times> mask list \<times> bool list list list)" where
  "EdfDataset_load pil mu ds idx =
     (case py_index (img_paths ds) idx of Inl e \<Rightarrow> Inl e | Inr img_path \<Rightarrow>
      case Image_open pil img_path of Inl e \<Rightarrow> Inl e | Inr opened \<Rightarrow>
      case py_index (mask_paths ds) idx of Inl e \<Rightarrow> Inl e | Inr mask_path \<Rightarrow>
      case util_load_image_as_np_array mu mask_path of Inl e \<Rightarrow> Inl e | Inr mask' \<Rightarrow>
      case util_extract_masks_from_cluster mu mask' of Inl e \<Rightarrow> Inl e | Inr mask_ch_first \<Rightarrow>
      case np_dstack mask_ch_first of Inl e \<Rightarrow> Inl e | Inr stacked \<Rightarrow>
        Inr (Image_convert pil opened ''RGB'', mask_ch_first, stacked))"

text \<open>
  \<^verbatim>\<open>__getitem__\<close>, lines 43 to 63: the boxes, turned into \<^verbatim>\<open>float32\<close> on line 46, the
  areas, computed from them in \<^verbatim>\<open>float32\<close> on line 50, the target and the transform.
\<close>

definition EdfDataset_getitem ::
  "'img pil \<Rightarrow> my_utils \<Rightarrow> 'img EdfDataset \<Rightarrow> int
     \<Rightarrow> py_error + ('img \<times> (float32, float32) target)" where
  "EdfDataset_getitem pil mu ds idx =
     (case EdfDataset_load pil mu ds idx of Inl e \<Rightarrow> Inl e | Inr (img, mask_ch_first, stacked) \<Rightarrow>
      case util_extract_bboxes_from_mask mu stacked of Inl e \<Rightarrow> Inl e | Inr bboxes \<Rightarrow>
        let num_instaces = length mask_ch_first;
            boxes' = map float32_box bboxes;
            target = \<lparr>boxes = boxes',
                      labels = replicate num_instaces 1,
                      masks = mask_ch_first,
                      image_id = [idx],
                      area = map (\<lambda>(x0, y0, x1, y1).
                                    float32_mul (float32_sub y1 y0) (float32_sub x1 x0)) boxes',
                      iscrowd = replicate num_instaces 0\<rparr>
        in Inr (apply_transforms (edf_transforms ds) (img, target)))"

definition EdfDataset_len :: "'img EdfDataset \<Rightarrow> nat" where
  "EdfDataset_len ds = length (img_paths ds)"

text \<open>
  \<^verbatim>\<open>check\<close> prints to standard output; the model returns the lines printed. The loop
  over \<^verbatim>\<open>zip(self.img_paths, self.mask_paths)\<close> leaves at its \<^verbatim>\<open>break\<close>.
\<close>

fun check_loop :: "(string \<times> string) list \<Rightarrow> string list" where
  "check_loop [] = []"
| "check_loop ((i, j) # rest) =
     (if py_slice i (- 9) (- 4) \<noteq> py_slice j (- 9) (- 4) then [''Image and label do not match.'']
      else check_loop rest)"

definition EdfDataset_check :: "'img EdfDataset \<Rightarrow> string list" where
  "EdfDataset_check ds = check_loop (zip (img_paths ds) (mask_paths ds))"

section \<open>\<^verbatim>\<open>CrowdDataset\<close>\<close>

record ('img, 'a) CrowdDataset =
  imgs_dir :: string
  coco :: "'a COCO"
  img_ids :: "int list"
  crowd_transforms :: "('img \<times> (int, 'a) target \<Rightarrow> 'img \<times> (int, 'a) target) option"

text \<open>
  \<^verbatim>\<open>__init__\<close>; \<open>COCO_load\<close> is the constructor \<^verbatim>\<open>COCO(ann_file)\<close>, which raises when the
  file is missing or malformed.
\<close>

definition CrowdDataset_init ::
  "(string \<Rightarrow> py_error + 'a COCO) \<Rightarrow> string \<Rightarrow> string
     \<Rightarrow> ('img \<times> (int, 'a) target \<Rightarrow> 'img \<times> (int, 'a) target) option \<Rightarrow> bool
     \<Rightarrow> py_error + ('img, 'a) CrowdDataset" where
  "CrowdDataset_init COCO_load dataset_dir subset' tr load_small =
     (let dataset_path = os_path_join dataset_dir subset';
          ann_file = (if load_small then os_path_join dataset_path ''annotation-small.json''
                      else os_path_join dataset_path ''annotation.json'')
      in case COCO_load ann_file of Inl e \<Rightarrow> Inl e | Inr c \<Rightarrow>
           Inr \<lparr>imgs_dir = os_path_join dataset_path ''images'',
                coco = c,
                img_ids = sort (getImgIds c),
                crowd_transforms = tr\<rparr>)"

text \<open>
  \<^verbatim>\<open>__getitem__\<close>, lines 106 to 124: the image id, the image, the annotations left by
  the crowd filter, their masks and the array handed to the box extractor.
\<close>

definition CrowdDataset_load ::
  "'img pil \<Rightarrow> ('img, 'a) CrowdDataset \<Rightarrow> int
     \<Rightarrow> py_error + (int \<times> 'img \<times> 'a annotation list \<times> mask list \<times> bool list list list)" where
  "CrowdDataset_load pil ds idx =
     (case py_index (img_ids ds) idx of Inl e \<Rightarrow> Inl e | Inr image_id' \<Rightarrow>
      case loadImgs (coco ds) image_id' of Inl e \<Rightarrow> Inl e | Inr objs \<Rightarrow>
      case py_index objs 0 of Inl e \<Rightarrow> Inl e | Inr img_obj \<Rightarrow>
      case Image_open pil (os_path_join (imgs_dir ds) (file_name img_obj)) of
        Inl e \<Rightarrow> Inl e | Inr image' \<Rightarrow>
        let anno = filter (\<lambda>obj. ann_iscrowd obj = 0)
                     (loadAnns (coco ds) (getAnnIds (coco ds) image_id'));
            masks_np = map (annToMask (coco ds)) anno
        in case np_dstack masks_np of Inl e \<Rightarrow> Inl e | Inr stacked \<Rightarrow>
             Inr (image_id', image', anno, masks_np, stacked))"

text \<open>
  \<^verbatim>\<open>__getitem__\<close>, lines 124 to 148: the boxes, the filter \<open>keep\<close> on boxes, classes
  and masks, the target and the transform.
\<close>

definition CrowdDataset_getitem ::
  "'img pil \<Rightarrow> my_utils \<Rightarrow> ('img, 'a) CrowdDataset \<Rightarrow> int
     \<Rightarrow> py_error + ('img \<times> (int, 'a) target)" where
  "CrowdDataset_getitem pil mu ds idx =
     (case CrowdDataset_load pil ds idx of
        Inl e \<Rightarrow> Inl e
      | Inr (image_id', image', anno, masks_np, stacked) \<Rightarrow>
      case util_extract_bboxes_from_mask mu stacked of Inl e \<Rightarrow> Inl e | Inr bboxes \<Rightarrow>
        let classes = replicate (length anno) (1::int);
            keep = map (\<lambda>(x0, y0, x1, y1). y1 > y0 \<and> x1 > x0) bboxes
        in case bool_index bboxes keep of Inl e \<Rightarrow> Inl e | Inr boxes' \<Rightarrow>
           case bool_index classes keep of Inl e \<Rightarrow> Inl e | Inr classes' \<Rightarrow>
           case bool_index masks_np keep of Inl e \<Rightarrow> Inl e | Inr masks' \<Rightarrow>
             Inr (apply_transforms (crowd_transforms ds)
                    (image', \<lparr>boxes = boxes',
                             labels = classes',
                             masks = masks',
                             image_id = [image_id'],
                             area = map ann_area anno,
                             iscrowd = map ann_iscrowd anno\<rparr>)))"

definition CrowdDataset_len :: "('img, 'a) CrowdDataset \<Rightarrow> nat" where
  "CrowdDataset_len ds = length (img_ids ds)"

section \<open>Notions the properties are stated with\<close>

text \<open>The distinct nonzero values of a label image.\<close>

abbreviation nonzero_values :: "int list list \<Rightarrow> int set" where
  "nonzero_values img \<equiv> {v. v \<noteq> 0 \<and> (\<exists>row\<in>set img. v \<in> set row)}"

text \<open>
  The columns and the rows in which instance \<open>k\<close> of an \<open>(H, W, N)\<close> array has a true
  pixel.
\<close>

abbreviation true_cols :: "bool list list list \<Rightarrow> nat \<Rightarrow> nat set" where
  "true_cols arr k \<equiv> {c. \<exists>r<length arr. c < length (arr ! r) \<and> arr ! r ! c ! k}"

abbreviation true_rows :: "bool list list list \<Rightarrow> nat \<Rightarrow> nat set" where
  "true_rows arr k \<equiv> {r. r < length arr \<and> (\<exists>c<length (arr ! r). arr ! r ! c ! k)}"

text \<open>
  \<open>arr\<close> is the depth-wise stack of the arrays \<open>ms\<close>: there is at least one, they share
  one shape \<open>(H, W)\<close>, and \<open>arr\<close> has shape \<open>(H, W, N)\<close> with the entry \<open>[r][c]\<close> of the
  \<open>k\<close>-th array at \<open>[r][c][k]\<close>.
\<close>

abbreviation stacked_last :: "'a list list list \<Rightarrow> 'a list list list \<Rightarrow> bool" where
  "stacked_last ms arr \<equiv>
     ms \<noteq> [] \<and> (\<forall>m\<in>set ms. shape2 m = shape2 (hd ms))
     \<and> length arr = fst (shape2 (hd ms))
     \<and> (\<forall>r<fst (shape2 (hd ms)). length (arr ! r) = snd (shape2 (hd ms))
           \<and> (\<forall>c<snd (shape2 (hd ms)). length (arr ! r ! c) = length ms
                 \<and> (\<forall>k<length ms. arr ! r ! c ! k = ms ! k ! r ! c)))"

text \<open>The test of line 128, by which \<open>keep\<close> keeps a box: \<open>y1 > y0\<close> and \<open>x1 > x0\<close>.\<close>

abbreviation valid_box :: "box \<Rightarrow> bool" where
  "valid_box \<equiv> (\<lambda>(x0, y0, x1, y1). y1 > y0 \<and> x1 > x0)"

text \<open>The pairs of paths \<^verbatim>\<open>check\<close> would report: those whose slices \<^verbatim>\<open>[-9:-4]\<close> differ.\<close>

abbreviation mismatches :: "'img EdfDataset \<Rightarrow> (string \<times> string) list" where
  "mismatches ds \<equiv>
     filter (\<lambda>(i, j). py_slice i (- 9) (- 4) \<noteq> py_slice j (- 9) (- 4))
       (zip (img_paths ds) (mask_paths ds))"

text \<open>
  The area of a \<^verbatim>\<open>float32\<close> box as line 50 computes it,
  \<^verbatim>\<open>(boxes[:, 3] - boxes[:, 1]) * (boxes[:, 2] - boxes[:, 0])\<close>: both differences and the
  product are rounded to \<^verbatim>\<open>float32\<close>.
\<close>

abbreviation float32_area :: "float32 \<times> float32 \<times> float32 \<times> float32 \<Rightarrow> float32" where
  "float32_area \<equiv> (\<lambda>(x0, y0, x1, y1). float32_mul (float32_sub y1 y0) (float32_sub x1 x0))"

text \<open>
  The boxes on which \<^verbatim>\<open>float32\<close> rounds nothing: the coordinates lie between 0 and
  \<open>2^24\<close> and the product of the extents is at most \<open>2^24\<close>.
\<close>

abbreviation exact_box :: "box \<Rightarrow> bool" where
  "exact_box \<equiv> (\<lambda>(x0, y0, x1, y1).
     0 \<le> x0 \<and> x0 \<le> 2 ^ 24 \<and> 0 \<le> y0 \<and> y0 \<le> 2 ^ 24 \<and> 0 \<le> x1 \<and> x1 \<le> 2 ^ 24
     \<and> 0 \<le> y1 \<and> y1 \<le> 2 ^ 24 \<and> \<bar>(x1 - x0) * (y1 - y0)\<bar> \<le> 2 ^ 24)"

section \<open>Example data\<close>

text \<open>
  The helpers as the spec describes them, over a given loader of label images.
\<close>

definition spec_utils :: "(string \<Rightarrow> py_error + int list list) \<Rightarrow> my_utils" where
  "spec_utils load =
     \<lparr>util_load_image_as_np_array = load,
      util_extract_masks_from_cluster = (\<lambda>img. Inr (extract_masks_from_cluster img)),
      util_extract_bboxes_from_mask = (\<lambda>arr. Inr (extract_bboxes_from_mask arr))\<rparr>"

text \<open>
  A file system with four image files and one label image of 3 rows and 4 columns with
  the clusters 1 and 2. A decoded image is stood for by its path.
\<close>

definition ex_pil :: "string pil" where
  "ex_pil =
     \<lparr>Image_open = (\<lambda>p. if p \<in> set [''d/image/00001.png'', ''crowd/train/images/a.jpg'',
                                      ''crowd/train/images/b.jpg'', ''crowd/train/images/c.jpg'']
                        then Inr p else Inl FileNotFoundError),
      Image_convert = (\<lambda>im mode. im @ '' as '' @ mode)\<rparr>"

definition ex_labels :: "string \<Rightarrow> py_error + int list list" where
  "ex_labels p =
     (if p = ''d/label/00001.png'' then Inr [[0, 2, 2, 0], [1, 0, 2, 0], [1, 0, 0, 0]]
      else Inl FileNotFoundError)"

definition ex_edf :: "string EdfDataset" where
  "ex_edf = \<lparr>img_paths = [''d/image/00001.png''], mask_paths = [''d/label/00001.png''],
             edf_transforms = None\<rparr>"

text \<open>Two images, two labels, and neither pair matches.\<close>

definition ex_edf_mixed :: "string EdfDataset" where
  "ex_edf_mixed = \<lparr>img_paths = [''d/image/00001.png'', ''d/image/00002.png''],
                   mask_paths = [''d/label/00003.png'', ''d/label/00004.png''],
                   edf_transforms = None\<rparr>"

text \<open>
  The example of the spec: a label image of shape 10 x 10 with value 1 in rows 2 to 4,
  columns 3 to 5.
\<close>

definition ex_label_image :: "int list list" where
  "ex_label_image =
     map (\<lambda>r. map (\<lambda>c. if 2 \<le> r \<and> r \<le> 4 \<and> 3 \<le> c \<and> c \<le> 5 then 1 else 0) [0..<10])
       [0..<10::nat]"

text \<open>The array \<^verbatim>\<open>np.dstack\<close> makes of its one mask, of shape \<open>(10, 10, 1)\<close>.\<close>

definition ex_stack :: "bool list list list" where
  "ex_stack = map (\<lambda>r. map (\<lambda>c. [2 \<le> r \<and> r \<le> 4 \<and> 3 \<le> c \<and> c \<le> 5]) [0..<10]) [0..<10::nat]"

text \<open>
  An annotation source with the images 7, 3 and 5. Image 3 has three annotations: 1
  decodes to a mask with no true pixel, 2 to a mask with three, 3 is flagged as crowd.
  Image 5 has no annotation, image 7 has one.
\<close>

definition ex_coco :: "int COCO" where
  "ex_coco =
     \<lparr>getImgIds = [7, 3, 5],
      loadImgs = (\<lambda>i. if i = 3 then Inr [\<lparr>file_name = ''a.jpg''\<rparr>]
                      else if i = 5 then Inr [\<lparr>file_name = ''b.jpg''\<rparr>]
                      else if i = 7 then Inr [\<lparr>file_name = ''c.jpg''\<rparr>]
                      else Inl KeyError),
      getAnnIds = (\<lambda>i. if i = 3 then [1, 2, 3] else if i = 7 then [4] else []),
      loadAnns = map (\<lambda>k. \<lparr>ann_id = k, ann_iscrowd = (if k = 3 then 1 else 0),
                            ann_area = (if k = 1 then 5 else if k = 2 then 9 else 2)\<rparr>),
      annToMask = (\<lambda>a. if ann_id a = 2 then [[False, True, True], [False, False, True]]
                        else if ann_id a = 4 then [[True, False, False], [False, False, False]]
                        else [[False, False, False], [False, False, False]])\<rparr>"

definition ex_COCO_load :: "string \<Rightarrow> py_error + int COCO" where
  "ex_COCO_load f =
     (if f = ''crowd/train/annotation.json'' then Inr ex_coco else Inl FileNotFoundError)"

definition ex_crowd :: "(string, int) CrowdDataset" where
  "ex_crowd = \<lparr>imgs_dir = ''crowd/train/images'', coco = ex_coco, img_ids = [3, 5, 7],
               crowd_transforms = None\<rparr>"

text \<open>
  What \<^verbatim>\<open>__getitem__(0)\<close> computes on the way for the two example datasets: the masks,
  instance first, and the array \<^verbatim>\<open>np.dstack\<close> makes of them.
\<close>

definition ex_edf_masks :: "mask list" where
  "ex_edf_masks =
     [[[False, False, False, False], [True, False, False, False], [True, False, False, False]],
      [[False, True, True, False], [False, False, True, False], [False, False, False, False]]]"

definition ex_edf_stacked :: "bool list list list" where
  "ex_edf_stacked =
     [[[False, False], [False, True], [False, True], [False, False]],
      [[True, False], [False, False], [False, True], [False, False]],
      [[True, False], [False, False], [False, False], [False, False]]]"

definition ex_crowd_anno :: "int annotation list" where
  "ex_crowd_anno =
     [\<lparr>ann_id = 1, ann_iscrowd = 0, ann_area = 5\<rparr>, \<lparr>ann_id = 2, ann_iscrowd = 0, ann_area = 9\<rparr>]"

definition ex_crowd_masks :: "mask list" where
  "ex_crowd_masks =
     [[[False, False, False], [False, False, False]], [[False, True, True], [False, False, True]]]"

definition ex_crowd_stacked :: "bool list list list" where
  "ex_crowd_stacked =
     [[[False, False], [False, True], [False, True]],
      [[False, False], [False, False], [False, True]]]"

text \<open>
  A label image of \<open>n + 1\<close> rows and \<open>n + 1\<close> columns with one cluster, of value 1, made
  of the two pixels at opposite corners, \<open>(0, 0)\<close> and \<open>(n, n)\<close>; its only mask, and the
  array \<^verbatim>\<open>np.dstack\<close> makes of that mask.
\<close>

definition corner_image :: "nat \<Rightarrow> int list list" where
  "corner_image n =
     map (\<lambda>r. map (\<lambda>c. if (r = 0 \<and> c = 0) \<or> (r = n \<and> c = n) then 1 else 0) [0..<Suc n])
       [0..<Suc n]"

definition corner_mask :: "nat \<Rightarrow> mask" where
  "corner_mask n = map (\<lambda>r. map (\<lambda>c. (r = 0 \<and> c = 0) \<or> (r = n \<and> c = n)) [0..<Suc n]) [0..<Suc n]"

definition corner_stack :: "nat \<Rightarrow> bool list list list" where
  "corner_stack n =
     map (\<lambda>r. map (\<lambda>c. [(r = 0 \<and> c = 0) \<or> (r = n \<and> c = n)]) [0..<Suc n]) [0..<Suc n]"

text \<open>A dataset of one image whose label image is the one above with 4097 rows and columns.\<close>

definition ex_big_labels :: "string \<Rightarrow> py_error + int list list" where
  "ex_big_labels p =
     (if p = ''d/label/04097.png'' then Inr (corner_image 4096) else Inl FileNotFoundError)"

definition ex_edf_big :: "string EdfDataset" where
  "ex_edf_big = \<lparr>img_paths = [''d/image/00001.png''], mask_paths = [''d/label/04097.png''],
                 edf_transforms = None\<rparr>"

section \<open>The examples, evaluated\<close>

lemma ex_label_image_stack:
  "np_dstack (extract_masks_from_cluster ex_label_image) = Inr ex_stack"
  by code_simp

lemma ex_stack_boxes: "extract_bboxes_from_mask ex_stack = [(3, 2, 6, 5)]"
  by code_simp

lemma ex_small_masks:
  "extract_masks_from_cluster [[0, 2, 2, 0], [1, 0, 2, 0], [1, 0, 0, 0]] =
     [[[False, False, False, False], [True, False, False, False], [True, False, False, False]],
      [[False, True, True, False], [False, False, True, False], [False, False, False, False]]]"
  by code_simp

lemma ex_crowd_sample_0:
  "CrowdDataset_getitem ex_pil (spec_utils ex_labels) ex_crowd 0 =
     Inr (''crowd/train/images/a.jpg'',
          \<lparr>boxes = [(1, 0, 3, 2)], labels = [1],
            masks = [[[False, True, True], [False, False, True]]],
            image_id = [3], area = [5, 9], iscrowd = [0, 0]\<rparr>)"
  by code_simp

lemma ex_crowd_sample_2:
  "CrowdDataset_getitem ex_pil (spec_utils ex_labels) ex_crowd 2 =
     Inr (''crowd/train/images/c.jpg'',
          \<lparr>boxes = [(0, 0, 1, 1)], labels = [1],
            masks = [[[True, False, False], [False, False, False]]],
            image_id = [7], area = [2], iscrowd = [0]\<rparr>)"
  by code_simp

lemma ex_edf_sample_0:
  "EdfDataset_getitem ex_pil (spec_utils ex_labels) ex_edf 0 =
     Inr (''d/image/00001.png as RGB'',
          \<lparr>boxes = [(Finite 0, Finite 1, Finite 1, Finite 3), (Finite 1, Finite 0, Finite 3, Finite 2)],
            labels = [1, 1],
            masks = [[[False, False, False, False], [True, False, False, False], [True, False, False, False]],
                     [[False, True, True, False], [False, False, True, False], [False, False, False, False]]],
            image_id = [0], area = [Finite 2, Finite 4], iscrowd = [0, 0]\<rparr>)"
  by code_simp

lemma ex_crowd_None: "crowd_transforms ex_crowd = None"
  by (simp add: ex_crowd_def)

lemma ex_edf_None: "edf_transforms ex_edf = None"
  by (simp add: ex_edf_def)

lemma ex_crowd_init:
  "CrowdDataset_init ex_COCO_load ''crowd'' ''train'' None False = Inr ex_crowd"
  by (simp add: CrowdDataset_init_def ex_COCO_load_def os_path_join_def ex_crowd_def ex_coco_def)

lemma ex_crowd_sample_last:
  "CrowdDataset_getitem ex_pil (spec_utils ex_labels) ex_crowd (- 1) =
     CrowdDataset_getitem ex_pil (spec_utils ex_labels) ex_crowd 2"
  by code_simp

lemma ex_edf_sample_neg:
  "EdfDataset_getitem ex_pil (spec_utils ex_labels) ex_edf (- 1) =
     Inr (''d/image/00001.png as RGB'',
          \<lparr>boxes = [(Finite 0, Finite 1, Finite 1, Finite 3), (Finite 1, Finite 0, Finite 3, Finite 2)],
            labels = [1, 1],
            masks = [[[False, False, False, False], [True, False, False, False], [True, False, False, False]],
                     [[False, True, True, False], [False, False, True, False], [False, False, False, False]]],
            image_id = [- 1], area = [Finite 2, Finite 4], iscrowd = [0, 0]\<rparr>)"
  by code_simp

lemma ex_coco_distinct: "distinct (getImgIds (coco ex_crowd))"
  by code_simp

lemma ex_edf_load:
  "EdfDataset_load ex_pil (spec_utils ex_labels) ex_edf 0 =
     Inr (''d/image/00001.png as RGB'', ex_edf_masks, ex_edf_stacked)"
  by code_simp

lemma ex_crowd_load:
  "CrowdDataset_load ex_pil ex_crowd 0 =
     Inr (3, ''crowd/train/images/a.jpg'', ex_crowd_anno, ex_crowd_masks, ex_crowd_stacked)"
  by code_simp

section \<open>The label-image decomposer, as specified\<close>

lemma set_cluster_values: "set (cluster_values img) = nonzero_values img"
  by (auto simp: cluster_values_def)

lemma distinct_cluster_values: "distinct (cluster_values img)"
  by (simp add: cluster_values_def)

lemma sorted_cluster_values: "sorted (cluster_values img)"
  by (simp add: cluster_values_def)

lemma cluster_values_sorted_list: "cluster_values img = sorted_list_of_set (nonzero_values img)"
proof -
  have "sorted_list_of_set (set (cluster_values img)) = cluster_values img"
    using distinct_cluster_values sorted_cluster_values
    by (simp add: sorted_list_of_set.idem_if_sorted_distinct)
  then show ?thesis by (simp add: set_cluster_values)
qed

lemma length_cluster_values: "length (cluster_values img) = card (nonzero_values img)"
  using distinct_card [OF distinct_cluster_values, of img] by (simp add: set_cluster_values)

lemma nth_extract_masks:
  "i < length (cluster_values img) \<Longrightarrow> r < length img \<Longrightarrow> c < length (img ! r) \<Longrightarrow>
   extract_masks_from_cluster img ! i ! r ! c \<longleftrightarrow> img ! r ! c = cluster_values img ! i"
  by (simp add: extract_masks_from_cluster_def)

text \<open>
  C4. For a label image with \<open>k\<close> distinct nonzero values the decomposer returns \<open>k\<close>
  masks, each of the shape of the image; mask \<open>i\<close> is true exactly where the image holds
  its \<open>i\<close>-th smallest nonzero value, so the masks come in ascending value order; and no
  pixel is true in two of them.
\<close>

theorem extract_masks_from_cluster_stack:
  "length (extract_masks_from_cluster img) = card (nonzero_values img)
   \<and> (\<forall>m\<in>set (extract_masks_from_cluster img).
         length m = length img \<and> (\<forall>r<length img. length (m ! r) = length (img ! r)))
   \<and> (\<forall>i<card (nonzero_values img). \<forall>r<length img. \<forall>c<length (img ! r).
         extract_masks_from_cluster img ! i ! r ! c
           \<longleftrightarrow> img ! r ! c = sorted_list_of_set (nonzero_values img) ! i)
   \<and> (\<forall>i<card (nonzero_values img). \<forall>j<card (nonzero_values img). i \<noteq> j \<longrightarrow>
         (\<forall>r<length img. \<forall>c<length (img ! r).
            \<not> (extract_masks_from_cluster img ! i ! r ! c \<and> extract_masks_from_cluster img ! j ! r ! c)))"
proof (intro conjI)
  show "length (extract_masks_from_cluster img) = card (nonzero_values img)"
    by (simp add: extract_masks_from_cluster_def length_cluster_values)
  show "\<forall>m\<in>set (extract_masks_from_cluster img).
         length m = length img \<and> (\<forall>r<length img. length (m ! r) = length (img ! r))"
    by (auto simp: extract_masks_from_cluster_def)
  show "\<forall>i<card (nonzero_values img). \<forall>r<length img. \<forall>c<length (img ! r).
         extract_masks_from_cluster img ! i ! r ! c
           \<longleftrightarrow> img ! r ! c = sorted_list_of_set (nonzero_values img) ! i"
    using nth_extract_masks [of _ img]
    by (simp add: length_cluster_values [symmetric] cluster_values_sorted_list [symmetric])
  show "\<forall>i<card (nonzero_values img). \<forall>j<card (nonzero_values img). i \<noteq> j \<longrightarrow>
         (\<forall>r<length img. \<forall>c<length (img ! r).
            \<not> (extract_masks_from_cluster img ! i ! r ! c \<and> extract_masks_from_cluster img ! j ! r ! c))"
  proof (intro allI impI)
    fix i j r c
    assume i: "i < card (nonzero_values img)" and j: "j < card (nonzero_values img)"
      and ne: "i \<noteq> j" and r: "r < length img" and c: "c < length (img ! r)"
    from i j have i': "i < length (cluster_values img)" and j': "j < length (cluster_values img)"
      by (simp_all add: length_cluster_values)
    from ne i' j' have "cluster_values img ! i \<noteq> cluster_values img ! j"
      using distinct_cluster_values [of img] by (simp add: nth_eq_iff_index_eq)
    then show "\<not> (extract_masks_from_cluster img ! i ! r ! c \<and> extract_masks_from_cluster img ! j ! r ! c)"
      using nth_extract_masks [OF i' r c] nth_extract_masks [OF j' r c] by auto
  qed
qed

theorem extract_masks_from_cluster_stack_witness:
  "card (nonzero_values [[0, 2, 2, 0], [1, 0, 2, 0], [1, 0, 0, 0]]) = 2
   \<and> sorted_list_of_set (nonzero_values [[0, 2, 2, 0], [1, 0, 2, 0], [1, 0, 0, 0]]) ! 0 = 1
   \<and> sorted_list_of_set (nonzero_values [[0, 2, 2, 0], [1, 0, 2, 0], [1, 0, 0, 0]]) ! 1 = 2
   \<and> length (extract_masks_from_cluster ex_label_image) = 1
   \<and> card (nonzero_values ex_label_image) = 1"
proof -
  let ?img = "[[0, 2, 2, 0], [1, 0, 2, 0], [1, 0, 0, 0]] :: int list list"
  note stack = extract_masks_from_cluster_stack [of ?img]
  have card: "card (nonzero_values ?img) = 2"
    using stack [THEN conjunct1] by (simp add: ex_small_masks)
  have nth: "\<And>i r c. i < 2 \<Longrightarrow> r < 3 \<Longrightarrow> c < length (?img ! r) \<Longrightarrow>
      extract_masks_from_cluster ?img ! i ! r ! c
        \<longleftrightarrow> ?img ! r ! c = sorted_list_of_set (nonzero_values ?img) ! i"
    using stack [THEN conjunct2, THEN conjunct2, THEN conjunct1] unfolding card by simp
  have v0: "sorted_list_of_set (nonzero_values ?img) ! 0 = 1"
    using nth [of 0 1 0] by (simp add: ex_small_masks)
  have v1: "sorted_list_of_set (nonzero_values ?img) ! 1 = 2"
    using nth [of 1 0 1] by (simp add: ex_small_masks)
  have len: "length (extract_masks_from_cluster ex_label_image) = 1"
    by code_simp
  have card': "card (nonzero_values ex_label_image) = 1"
    using extract_masks_from_cluster_stack [of ex_label_image, THEN conjunct1] len by simp
  from card v0 v1 len card' show ?thesis by blast
qed

section \<open>The bounding-box extractor, as specified\<close>

lemma set_true_pixels:
  "set (true_pixels m) = {(r, c). r < length m \<and> c < length (m ! r) \<and> m ! r ! c}"
  by (auto simp: true_pixels_def)

lemma set_true_pixels_channel:
  "set (true_pixels (channel arr k)) = {(r, c). r < length arr \<and> c < length (arr ! r) \<and> arr ! r ! c ! k}"
proof -
  have "\<And>r c. r < length arr \<and> c < length (channel arr k ! r) \<and> channel arr k ! r ! c
          \<longleftrightarrow> r < length arr \<and> c < length (arr ! r) \<and> arr ! r ! c ! k"
    by (auto simp: channel_def)
  then show ?thesis
    by (simp add: set_true_pixels channel_def [of arr k, THEN arg_cong [of _ _ length]])
qed

lemma cols_true_pixels:
  "snd ` set (true_pixels (channel arr k)) = true_cols arr k"
  unfolding set_true_pixels_channel by force

lemma rows_true_pixels:
  "fst ` set (true_pixels (channel arr k)) = true_rows arr k"
  unfolding set_true_pixels_channel by force

lemma finite_true_cols: "finite (true_cols arr k)"
  using cols_true_pixels [of arr k, symmetric] by simp

lemma finite_true_rows: "finite (true_rows arr k)"
  by simp

lemma bbox_of_channel:
  assumes "r0 < length arr" and "c0 < length (arr ! r0)" and "arr ! r0 ! c0 ! k"
  shows "bbox_of_mask (channel arr k) =
           (int (Min (true_cols arr k)), int (Min (true_rows arr k)),
            int (Max (true_cols arr k)) + 1, int (Max (true_rows arr k)) + 1)"
proof -
  have "(r0, c0) \<in> set (true_pixels (channel arr k))"
    using assms by (simp add: set_true_pixels channel_def)
  then have "true_pixels (channel arr k) \<noteq> []" by auto
  then show ?thesis
    by (simp add: bbox_of_mask_def Let_def cols_true_pixels rows_true_pixels)
qed

text \<open>
  C3. For every instance \<open>k\<close> of the array handed to the extractor whose mask has a true
  pixel, the box is \<open>(x0, y0, x1, y1)\<close> with \<open>x0\<close> the least column holding a true pixel,
  \<open>x1\<close> the greatest plus one, \<open>y0\<close> the least row and \<open>y1\<close> the greatest plus one; then
  \<open>(x1 - x0) * (y1 - y0)\<close> is the number of pixels of the bounding rectangle and is
  positive.
\<close>

theorem extract_bboxes_from_mask_extent:
  assumes k: "k < depth arr"
    and px: "r0 < length arr" "c0 < length (arr ! r0)" "arr ! r0 ! c0 ! k"
  shows "extract_bboxes_from_mask arr ! k =
           (int (Min (true_cols arr k)), int (Min (true_rows arr k)),
            int (Max (true_cols arr k)) + 1, int (Max (true_rows arr k)) + 1)
         \<and> (case extract_bboxes_from_mask arr ! k of (x0, y0, x1, y1) \<Rightarrow>
               (x1 - x0) * (y1 - y0)
                 = int ((Max (true_cols arr k) - Min (true_cols arr k) + 1)
                        * (Max (true_rows arr k) - Min (true_rows arr k) + 1))
               \<and> 0 < (x1 - x0) * (y1 - y0))"
proof -
  define C where "C = true_cols arr k"
  define R where "R = true_rows arr k"
  have box: "extract_bboxes_from_mask arr ! k = (int (Min C), int (Min R), int (Max C) + 1, int (Max R) + 1)"
    unfolding C_def R_def
    using k bbox_of_channel [OF px] by (simp add: extract_bboxes_from_mask_def)
  have "finite C" and "c0 \<in> C"
    unfolding C_def using finite_true_cols [of arr k] px by blast+
  then have cs: "Min C \<le> Max C"
    using Min_le [of C c0] Max_ge [of C c0] by linarith
  have "finite R" and "r0 \<in> R"
    unfolding R_def using px by auto
  then have rs: "Min R \<le> Max R"
    using Min_le [of R r0] Max_ge [of R r0] by linarith
  have w: "int (Max C) + 1 - int (Min C) = int (Max C - Min C + 1)"
    using cs by simp
  have h: "int (Max R) + 1 - int (Min R) = int (Max R - Min R + 1)"
    using rs by simp
  have "(case extract_bboxes_from_mask arr ! k of (x0, y0, x1, y1) \<Rightarrow>
               (x1 - x0) * (y1 - y0) = int ((Max C - Min C + 1) * (Max R - Min R + 1))
               \<and> 0 < (x1 - x0) * (y1 - y0))"
  proof -
    have eq: "(int (Max C) + 1 - int (Min C)) * (int (Max R) + 1 - int (Min R))
                = int ((Max C - Min C + 1) * (Max R - Min R + 1))"
      by (simp only: w h of_nat_mult)
    have pos: "0 < int ((Max C - Min C + 1) * (Max R - Min R + 1))"
      by (simp only: of_nat_0_less_iff) simp
    show ?thesis
      by (simp only: box prod.case eq pos simp_thms)
  qed
  with box show ?thesis
    unfolding C_def R_def by blast
qed

theorem extract_bboxes_from_mask_extent_witness:
  "0 < depth ex_stack \<and> ex_stack ! 2 ! 3 ! 0
   \<and> extract_bboxes_from_mask ex_stack ! 0 = (3, 2, 6, 5)
   \<and> Min (true_cols ex_stack 0) = 3 \<and> Max (true_cols ex_stack 0) = 5
   \<and> Min (true_rows ex_stack 0) = 2 \<and> Max (true_rows ex_stack 0) = 4
   \<and> (3::nat) * 3 = (Max (true_cols ex_stack 0) - Min (true_cols ex_stack 0) + 1)
                 * (Max (true_rows ex_stack 0) - Min (true_rows ex_stack 0) + 1)"
proof -
  have k: "0 < depth ex_stack" by code_simp
  have r: "2 < length ex_stack" by code_simp
  have c: "3 < length (ex_stack ! 2)" by code_simp
  have p: "ex_stack ! 2 ! 3 ! 0" by code_simp
  note ext = extract_bboxes_from_mask_extent [OF k r c p]
  have box: "extract_bboxes_from_mask ex_stack ! 0 = (3, 2, 6, 5)"
    by (simp add: ex_stack_boxes)
  from ext [THEN conjunct1] have
    "(int (Min (true_cols ex_stack 0)), int (Min (true_rows ex_stack 0)),
      int (Max (true_cols ex_stack 0)) + 1, int (Max (true_rows ex_stack 0)) + 1) = (3, 2, 6, 5)"
    unfolding box by simp
  then have m: "Min (true_cols ex_stack 0) = 3" "Max (true_cols ex_stack 0) = 5"
    "Min (true_rows ex_stack 0) = 2" "Max (true_rows ex_stack 0) = 4"
    by simp_all
  show ?thesis
    unfolding m using k p box by simp
qed

section \<open>What a returning call has computed\<close>

lemma bool_index_map_pred: "bool_index xs (map P xs) = Inr (filter P xs)"
proof -
  have "map fst (filter snd (zip xs (map P xs))) = filter P xs"
    by (induction xs) auto
  then show ?thesis by (simp add: bool_index_def)
qed

lemma bool_index_Inr:
  assumes "bool_index xs keep = Inr ys"
  shows "length keep = length xs" and "set ys \<subseteq> set xs" and "length ys \<le> length xs"
proof -
  from assms show len: "length keep = length xs"
    by (simp add: bool_index_def split: if_splits)
  from assms have ys: "ys = map fst (filter snd (zip xs keep))"
    by (simp add: bool_index_def split: if_splits)
  show "set ys \<subseteq> set xs"
    unfolding ys by (auto dest: set_zip_leftD)
  show "length ys \<le> length xs"
    using length_filter_le [of snd "zip xs keep"] by (simp add: ys)
qed

lemma bool_index_lengths:
  assumes "bool_index xs keep = Inr xs'" and "bool_index ys keep = Inr ys'"
  shows "length xs' = length ys'"
proof -
  from assms have lx: "length keep = length xs" and ly: "length keep = length ys"
    and xs': "xs' = map fst (filter snd (zip xs keep))"
    and ys': "ys' = map fst (filter snd (zip ys keep))"
    by (simp_all add: bool_index_def split: if_splits)
  have "length (filter snd (zip xs keep)) = length (filter id keep)"
    using lx
  proof (induction xs keep rule: list_induct2')
    case (4 x xs k ks) then show ?case by simp
  qed simp_all
  moreover have "length (filter snd (zip ys keep)) = length (filter id keep)"
    using ly
  proof (induction ys keep rule: list_induct2')
    case (4 x xs k ks) then show ?case by simp
  qed simp_all
  ultimately show ?thesis by (simp add: xs' ys')
qed


lemma CrowdDataset_load_Inr:
  assumes "CrowdDataset_load pil ds idx = Inr (iid, im, anno, masks_np, stacked)"
  shows "py_index (img_ids ds) idx = Inr iid"
    and "anno = filter (\<lambda>obj. ann_iscrowd obj = 0) (loadAnns (coco ds) (getAnnIds (coco ds) iid))"
    and "masks_np = map (annToMask (coco ds)) anno"
    and "np_dstack masks_np = Inr stacked"
  using assms unfolding CrowdDataset_load_def
  by (auto simp: Let_def split: sum.splits)

lemma CrowdDataset_getitem_Inr:
  assumes "CrowdDataset_getitem pil mu ds idx = Inr (im, t)" and "crowd_transforms ds = None"
  obtains iid anno masks_np stacked bboxes where
    "CrowdDataset_load pil ds idx = Inr (iid, im, anno, masks_np, stacked)"
    "util_extract_bboxes_from_mask mu stacked = Inr bboxes"
    "boxes t = filter valid_box bboxes"
    "bool_index (replicate (length anno) 1) (map valid_box bboxes) = Inr (labels t)"
    "bool_index masks_np (map valid_box bboxes) = Inr (masks t)"
    "image_id t = [iid]"
    "area t = map ann_area anno"
    "iscrowd t = map ann_iscrowd anno"
  using assms unfolding CrowdDataset_getitem_def
  by (auto simp: Let_def apply_transforms_def bool_index_map_pred split: sum.splits prod.splits)

lemma EdfDataset_getitem_Inr:
  assumes "EdfDataset_getitem pil mu ds idx = Inr (img, t)" and "edf_transforms ds = None"
  obtains mask_ch_first stacked bboxes where
    "EdfDataset_load pil mu ds idx = Inr (img, mask_ch_first, stacked)"
    "util_extract_bboxes_from_mask mu stacked = Inr bboxes"
    "boxes t = map float32_box bboxes"
    "labels t = replicate (length mask_ch_first) 1"
    "masks t = mask_ch_first"
    "image_id t = [idx]"
    "area t = map (\<lambda>(x0, y0, x1, y1). float32_mul (float32_sub y1 y0) (float32_sub x1 x0))
                (map float32_box bboxes)"
    "iscrowd t = replicate (length mask_ch_first) 0"
  using assms unfolding EdfDataset_getitem_def
  by (auto simp: Let_def apply_transforms_def split: sum.splits prod.splits)

text \<open>
  With a transform set, the sample returned is the transform applied to the sample the
  same call returns with none.
\<close>

lemma CrowdDataset_getitem_sample:
  assumes "CrowdDataset_getitem pil mu ds idx = Inr s"
  obtains im t where "s = apply_transforms (crowd_transforms ds) (im, t)"
    and "CrowdDataset_getitem pil mu (ds\<lparr>crowd_transforms := None\<rparr>) idx = Inr (im, t)"
  using assms unfolding CrowdDataset_getitem_def CrowdDataset_load_def
  by (auto simp: Let_def apply_transforms_def split: sum.splits prod.splits)

lemma EdfDataset_getitem_sample:
  assumes "EdfDataset_getitem pil mu ds idx = Inr s"
  obtains img t where "s = apply_transforms (edf_transforms ds) (img, t)"
    and "EdfDataset_getitem pil mu (ds\<lparr>edf_transforms := None\<rparr>) idx = Inr (img, t)"
  using assms unfolding EdfDataset_getitem_def EdfDataset_load_def
  by (auto simp: Let_def apply_transforms_def simp del: map_map split: sum.splits prod.splits)

section \<open>\<^verbatim>\<open>CrowdDataset\<close>: the emitted instances\<close>

lemma CrowdDataset_getitem_valid:
  assumes "CrowdDataset_getitem pil mu ds idx = Inr (im, t)" and "crowd_transforms ds = None"
  shows "(\<forall>(x0, y0, x1, y1)\<in>set (boxes t). x1 > x0 \<and> y1 > y0)
         \<and> (\<forall>c\<in>set (iscrowd t). c = 0) \<and> 1 \<notin> set (iscrowd t)
         \<and> (\<exists>v. image_id t = [v]
               \<and> set (masks t) \<subseteq> annToMask (coco ds) `
                    {a \<in> set (loadAnns (coco ds) (getAnnIds (coco ds) v)). ann_iscrowd a = 0})"
proof -
  from assms obtain iid anno masks_np stacked bboxes where
    load: "CrowdDataset_load pil ds idx = Inr (iid, im, anno, masks_np, stacked)"
    and bx: "boxes t = filter valid_box bboxes"
    and ms: "bool_index masks_np (map valid_box bboxes) = Inr (masks t)"
    and iid: "image_id t = [iid]"
    and cr: "iscrowd t = map ann_iscrowd anno"
    by (rule CrowdDataset_getitem_Inr)
  note l = CrowdDataset_load_Inr [OF load]
  have b: "\<forall>(x0, y0, x1, y1)\<in>set (boxes t). x1 > x0 \<and> y1 > y0"
    unfolding bx by auto
  have c: "\<forall>c\<in>set (iscrowd t). c = 0"
    unfolding cr l(2) by auto
  then have c1: "1 \<notin> set (iscrowd t)" by auto
  have "set (masks t) \<subseteq> set masks_np"
    using bool_index_Inr(2) [OF ms] .
  also have "\<dots> = annToMask (coco ds) `
                    {a \<in> set (loadAnns (coco ds) (getAnnIds (coco ds) iid)). ann_iscrowd a = 0}"
    unfolding l(3) l(2) by auto
  finally have m: "set (masks t) \<subseteq> annToMask (coco ds) `
                    {a \<in> set (loadAnns (coco ds) (getAnnIds (coco ds) iid)). ann_iscrowd a = 0}" .
  from b c c1 iid m show ?thesis by blast
qed

text \<open>
  C2. Every sample \<^verbatim>\<open>CrowdDataset.__getitem__\<close> returns is \<open>(im, t)\<close>, or the transform
  applied to \<open>(im, t)\<close> when one is set, \<open>(im, t)\<close> being what the call returns with no
  transform; in \<open>t\<close> every box has \<open>x1 > x0\<close> and
  \<open>y1 > y0\<close>, every entry of \<open>iscrowd\<close> is 0, so none is 1, and every emitted mask is the
  mask of an annotation of the sample's image whose \<^verbatim>\<open>iscrowd\<close> is 0: an annotation
  flagged as crowd gives no instance.
\<close>

theorem CrowdDataset_getitem_valid_instances:
  assumes "CrowdDataset_getitem pil mu ds idx = Inr s"
  shows "\<exists>im t. s = apply_transforms (crowd_transforms ds) (im, t)
           \<and> CrowdDataset_getitem pil mu (ds\<lparr>crowd_transforms := None\<rparr>) idx = Inr (im, t)
           \<and> (\<forall>(x0, y0, x1, y1)\<in>set (boxes t). x1 > x0 \<and> y1 > y0)
           \<and> (\<forall>c\<in>set (iscrowd t). c = 0) \<and> 1 \<notin> set (iscrowd t)
           \<and> (\<exists>v. image_id t = [v]
                 \<and> set (masks t) \<subseteq> annToMask (coco ds) `
                      {a \<in> set (loadAnns (coco ds) (getAnnIds (coco ds) v)). ann_iscrowd a = 0})"
proof -
  from assms obtain im t where s: "s = apply_transforms (crowd_transforms ds) (im, t)"
    and raw: "CrowdDataset_getitem pil mu (ds\<lparr>crowd_transforms := None\<rparr>) idx = Inr (im, t)"
    by (rule CrowdDataset_getitem_sample)
  from CrowdDataset_getitem_valid [OF raw] s raw show ?thesis
    by (simp del: split_paired_Ex)
qed

theorem CrowdDataset_getitem_valid_instances_witness:
  "CrowdDataset_getitem ex_pil (spec_utils ex_labels) ex_crowd 0 =
     Inr (''crowd/train/images/a.jpg'',
          \<lparr>boxes = [(1, 0, 3, 2)], labels = [1],
            masks = [[[False, True, True], [False, False, True]]],
            image_id = [3], area = [5, 9], iscrowd = [0, 0]\<rparr>)
   \<and> crowd_transforms ex_crowd = None
   \<and> (3::int) > 1 \<and> (2::int) > 0 \<and> (1::int) \<notin> set [0, 0]
   \<and> [[False, True, True], [False, False, True]] \<in> annToMask (coco ex_crowd) `
        {a \<in> set (loadAnns (coco ex_crowd) (getAnnIds (coco ex_crowd) 3)). ann_iscrowd a = 0}"
proof -
  from CrowdDataset_getitem_valid_instances [OF ex_crowd_sample_0]
  have "[[False, True, True], [False, False, True]] \<in> annToMask (coco ex_crowd) `
        {a \<in> set (loadAnns (coco ex_crowd) (getAnnIds (coco ex_crowd) 3)). ann_iscrowd a = 0}"
    by (simp add: ex_crowd_None apply_transforms_def)
  then show ?thesis
    using ex_crowd_sample_0 ex_crowd_None by simp
qed

section \<open>\<^verbatim>\<open>EdfDataset\<close>: labels, crowd flags and areas\<close>

subsection \<open>Where \<^verbatim>\<open>float32\<close> is exact\<close>

text \<open>An integer of absolute value at most \<open>2^24\<close> is a \<^verbatim>\<open>float32\<close>.\<close>

lemma bit_length_le: "m < 2 ^ k \<Longrightarrow> bit_length m \<le> k"
proof (induction k arbitrary: m)
  case 0
  then show ?case by (simp add: bit_length.simps)
next
  case (Suc k)
  show ?case
  proof (cases "m \<le> 0")
    case True
    then show ?thesis by (simp add: bit_length.simps)
  next
    case False
    from Suc.prems have "m div 2 < 2 ^ k" by simp
    from Suc.IH [OF this] False show ?thesis
      by (subst bit_length.simps) simp
  qed
qed

lemma float32_of_int_pow24:
  "float32_of_int 16777216 = Finite 16777216"
  "float32_of_int (- 16777216) = Finite (- 16777216)"
  by code_simp+

lemma float32_of_int_exact:
  assumes "\<bar>n\<bar> \<le> 2 ^ 24"
  shows "float32_of_int n = Finite n"
proof (cases "\<bar>n\<bar> = 2 ^ 24")
  case True
  then have "n = 16777216 \<or> n = - 16777216" by auto
  then show ?thesis
    using float32_of_int_pow24 by auto
next
  case False
  with assms have lt: "\<bar>n\<bar> < 2 ^ 24" by simp
  then have e: "bit_length \<bar>n\<bar> - 24 = 0"
    using bit_length_le [of "\<bar>n\<bar>" 24] by simp
  have small: "\<not> 2 ^ 128 \<le> \<bar>n\<bar>"
    using lt by simp
  have sign: "(if n < 0 then - \<bar>n\<bar> else \<bar>n\<bar>) = n"
    by simp
  have "float32_of_int n = Finite (if n < 0 then - \<bar>n\<bar> else \<bar>n\<bar>)"
    unfolding float32_of_int_def Let_def e using small by (cases "n < 0") simp_all
  then show ?thesis
    by (simp only: sign)
qed

lemma float32_box_exact:
  assumes "exact_box b"
  shows "float32_box b = (case b of (x0, y0, x1, y1) \<Rightarrow> (Finite x0, Finite y0, Finite x1, Finite y1))"
    and "float32_area (float32_box b) = (case b of (x0, y0, x1, y1) \<Rightarrow> Finite ((x1 - x0) * (y1 - y0)))"
proof -
  obtain x0 y0 x1 y1 where b: "b = (x0, y0, x1, y1)" by (cases b)
  from assms have r: "\<bar>x0\<bar> \<le> 2 ^ 24" "\<bar>y0\<bar> \<le> 2 ^ 24" "\<bar>x1\<bar> \<le> 2 ^ 24" "\<bar>y1\<bar> \<le> 2 ^ 24"
    and d: "\<bar>y1 - y0\<bar> \<le> 2 ^ 24" "\<bar>x1 - x0\<bar> \<le> 2 ^ 24"
    and p: "\<bar>(y1 - y0) * (x1 - x0)\<bar> \<le> 2 ^ 24"
    unfolding b by (auto simp: mult.commute)
  show box: "float32_box b = (case b of (x0, y0, x1, y1) \<Rightarrow> (Finite x0, Finite y0, Finite x1, Finite y1))"
    unfolding b by (simp add: float32_box_def float32_of_int_exact [OF r(1)]
        float32_of_int_exact [OF r(2)] float32_of_int_exact [OF r(3)] float32_of_int_exact [OF r(4)])
  have m: "float32_mul (Finite (y1 - y0)) (Finite (x1 - x0)) = Finite ((x1 - x0) * (y1 - y0))"
    using float32_of_int_exact [OF p] by (simp add: mult.commute)
  have s: "float32_sub (Finite y1) (Finite y0) = Finite (y1 - y0)"
    "float32_sub (Finite x1) (Finite x0) = Finite (x1 - x0)"
    by (simp_all add: float32_of_int_exact [OF d(1)] float32_of_int_exact [OF d(2)])
  show "float32_area (float32_box b) = (case b of (x0, y0, x1, y1) \<Rightarrow> Finite ((x1 - x0) * (y1 - y0)))"
    unfolding box unfolding b
    by (simp only: prod.case s m)
qed

subsection \<open>The target of a returning call\<close>

text \<open>
  The masks are what the decomposer returns on the label image of the path at \<open>idx\<close>,
  the boxes what the extractor returns on the stack of these masks, turned into
  \<^verbatim>\<open>float32\<close>.
\<close>

lemma EdfDataset_load_masks:
  assumes "EdfDataset_load pil mu ds idx = Inr (img, ms, arr)"
  shows "\<exists>p label. py_index (mask_paths ds) idx = Inr p
           \<and> util_load_image_as_np_array mu p = Inr label
           \<and> util_extract_masks_from_cluster mu label = Inr ms
           \<and> np_dstack ms = Inr arr"
  using assms unfolding EdfDataset_load_def
  by (auto split: sum.splits)

lemma EdfDataset_getitem_ones:
  assumes "EdfDataset_getitem pil mu ds idx = Inr (img, t)" and "edf_transforms ds = None"
  shows "\<exists>p label arr bboxes.
           py_index (mask_paths ds) idx = Inr p
           \<and> util_load_image_as_np_array mu p = Inr label
           \<and> util_extract_masks_from_cluster mu label = Inr (masks t)
           \<and> np_dstack (masks t) = Inr arr
           \<and> util_extract_bboxes_from_mask mu arr = Inr bboxes
           \<and> boxes t = map float32_box bboxes
           \<and> labels t = replicate (length (masks t)) 1
           \<and> iscrowd t = replicate (length (masks t)) 0
           \<and> area t = map float32_area (boxes t)
           \<and> (list_all exact_box bboxes \<longrightarrow>
                 boxes t = map (\<lambda>(x0, y0, x1, y1). (Finite x0, Finite y0, Finite x1, Finite y1)) bboxes
                 \<and> area t = map (\<lambda>(x0, y0, x1, y1). Finite ((x1 - x0) * (y1 - y0))) bboxes)"
proof -
  from assms obtain ms arr bboxes where
    load: "EdfDataset_load pil mu ds idx = Inr (img, ms, arr)"
    and ex: "util_extract_bboxes_from_mask mu arr = Inr bboxes"
    and t: "boxes t = map float32_box bboxes" "labels t = replicate (length ms) 1"
      "masks t = ms" "area t = map float32_area (map float32_box bboxes)"
      "iscrowd t = replicate (length ms) 0"
    by (rule EdfDataset_getitem_Inr)
  from EdfDataset_load_masks [OF load] obtain p label where
    pl: "py_index (mask_paths ds) idx = Inr p" "util_load_image_as_np_array mu p = Inr label"
      "util_extract_masks_from_cluster mu label = Inr ms" "np_dstack ms = Inr arr"
    by blast
  have exact: "boxes t = map (\<lambda>(x0, y0, x1, y1). (Finite x0, Finite y0, Finite x1, Finite y1)) bboxes
                 \<and> area t = map (\<lambda>(x0, y0, x1, y1). Finite ((x1 - x0) * (y1 - y0))) bboxes"
    if "list_all exact_box bboxes"
  proof -
    from that have e: "\<And>b. b \<in> set bboxes \<Longrightarrow> exact_box b"
      by (simp add: list_all_iff)
    have "map float32_box bboxes
            = map (\<lambda>(x0, y0, x1, y1). (Finite x0, Finite y0, Finite x1, Finite y1)) bboxes"
      by (rule map_cong [OF refl]) (use float32_box_exact(1) [OF e] in simp)
    moreover have "map float32_area (map float32_box bboxes)
            = map (\<lambda>(x0, y0, x1, y1). Finite ((x1 - x0) * (y1 - y0))) bboxes"
      unfolding map_map o_def
      by (rule map_cong [OF refl]) (use float32_box_exact(2) [OF e] in simp)
    ultimately show ?thesis by (simp only: t)
  qed
  from pl ex t exact show ?thesis
    by (simp only: t(3)) blast
qed

lemma ex_edf_boxes:
  "util_extract_bboxes_from_mask (spec_utils ex_labels) ex_edf_stacked = Inr [(0, 1, 1, 3), (1, 0, 3, 2)]"
  by code_simp

text \<open>
  C7. Every sample \<^verbatim>\<open>EdfDataset.__getitem__\<close> returns is \<open>(img, t)\<close>, or the transform
  applied to \<open>(img, t)\<close> when one is set, \<open>(img, t)\<close> being what the call returns with no
  transform. In \<open>t\<close>, \<open>masks\<close> is the decomposer's output on the label image loaded from
  the path at \<open>idx\<close>, and \<open>boxes\<close> holds, as \<^verbatim>\<open>float32\<close>, the boxes the extractor returns
  on the stack of these masks; every instance has label 1 and crowd flag 0; \<open>area\<close> holds
  for each box the \<^verbatim>\<open>float32\<close> product of its \<^verbatim>\<open>float32\<close> extents, which is
  \<open>(x1 - x0) * (y1 - y0)\<close> itself when the coordinates lie between 0 and \<open>2^24\<close> and that
  product is at most \<open>2^24\<close>.
\<close>

theorem EdfDataset_getitem_labels_area:
  assumes "EdfDataset_getitem pil mu ds idx = Inr s"
  shows "\<exists>img t p label arr bboxes.
           s = apply_transforms (edf_transforms ds) (img, t)
           \<and> EdfDataset_getitem pil mu (ds\<lparr>edf_transforms := None\<rparr>) idx = Inr (img, t)
           \<and> py_index (mask_paths ds) idx = Inr p
           \<and> util_load_image_as_np_array mu p = Inr label
           \<and> util_extract_masks_from_cluster mu label = Inr (masks t)
           \<and> np_dstack (masks t) = Inr arr
           \<and> util_extract_bboxes_from_mask mu arr = Inr bboxes
           \<and> boxes t = map float32_box bboxes
           \<and> labels t = replicate (length (masks t)) 1
           \<and> iscrowd t = replicate (length (masks t)) 0
           \<and> area t = map float32_area (boxes t)
           \<and> (list_all exact_box bboxes \<longrightarrow>
                 boxes t = map (\<lambda>(x0, y0, x1, y1). (Finite x0, Finite y0, Finite x1, Finite y1)) bboxes
                 \<and> area t = map (\<lambda>(x0, y0, x1, y1). Finite ((x1 - x0) * (y1 - y0))) bboxes)"
proof -
  from assms obtain img t where s: "s = apply_transforms (edf_transforms ds) (img, t)"
    and raw: "EdfDataset_getitem pil mu (ds\<lparr>edf_transforms := None\<rparr>) idx = Inr (img, t)"
    by (rule EdfDataset_getitem_sample)
  have mp: "mask_paths (ds\<lparr>edf_transforms := None\<rparr>) = mask_paths ds"
    and tr: "edf_transforms (ds\<lparr>edf_transforms := None\<rparr>) = None"
    by simp_all
  note ones = EdfDataset_getitem_ones [OF raw tr, unfolded mp]
  from ones s raw show ?thesis
    by blast
qed

theorem EdfDataset_getitem_labels_area_witness:
  "EdfDataset_getitem ex_pil (spec_utils ex_labels) ex_edf 0 =
     Inr (''d/image/00001.png as RGB'',
          \<lparr>boxes = [(Finite 0, Finite 1, Finite 1, Finite 3), (Finite 1, Finite 0, Finite 3, Finite 2)],
            labels = [1, 1],
            masks = [[[False, False, False, False], [True, False, False, False], [True, False, False, False]],
                     [[False, True, True, False], [False, False, True, False], [False, False, False, False]]],
            image_id = [0], area = [Finite 2, Finite 4], iscrowd = [0, 0]\<rparr>)
   \<and> edf_transforms ex_edf = None
   \<and> util_extract_bboxes_from_mask (spec_utils ex_labels) ex_edf_stacked
        = Inr [(0, 1, 1, 3), (1, 0, 3, 2)]
   \<and> list_all exact_box [(0, 1, 1, 3), (1, 0, 3, 2)]
   \<and> [1, 1] = replicate 2 (1::int) \<and> [0, 0] = replicate 2 (0::int)
   \<and> [Finite 2, Finite 4]
        = map (\<lambda>(x0, y0, x1, y1). Finite ((x1 - x0) * (y1 - y0))) [(0, 1, 1, 3), (1, 0, 3, 2)]"
  using EdfDataset_getitem_labels_area [OF ex_edf_sample_0] ex_edf_sample_0 ex_edf_None ex_edf_boxes
  by (simp add: numeral_2_eq_2)

subsection \<open>An area that \<^verbatim>\<open>float32\<close> rounds\<close>

text \<open>
  The label image with 4097 rows and columns and one cluster that reaches two opposite
  corners: its mask, its stack, its box \<open>(0, 0, 4097, 4097)\<close> and the sample.
\<close>

lemma distinct_singleton: "distinct xs \<Longrightarrow> set xs = {a} \<Longrightarrow> xs = [a]"
proof -
  assume d: "distinct xs" and s: "set xs = {a}"
  from d have "length xs = card (set xs)" by (simp add: distinct_card)
  with s have "length xs = 1" by simp
  then obtain x where "xs = [x]" by (cases xs) auto
  with s show ?thesis by simp
qed

lemma corner_image_nth:
  "length (corner_image n) = Suc n"
  "r \<le> n \<Longrightarrow> length (corner_image n ! r) = Suc n"
  "r \<le> n \<Longrightarrow> c \<le> n \<Longrightarrow>
     corner_image n ! r ! c = (if (r = 0 \<and> c = 0) \<or> (r = n \<and> c = n) then 1 else 0)"
  by (simp_all add: corner_image_def del: upt_Suc)

lemma nonzero_values_corner: "nonzero_values (corner_image n) = {1}"
proof (intro set_eqI iffI)
  fix v assume "v \<in> nonzero_values (corner_image n)"
  then show "v \<in> {1}" by (auto simp: corner_image_def simp del: upt_Suc split: if_splits)
next
  fix v :: int assume "v \<in> {1}"
  then have v: "v = 1" by simp
  have row: "corner_image n ! 0 \<in> set (corner_image n)"
    by (rule nth_mem) (simp add: corner_image_nth)
  have "corner_image n ! 0 ! 0 \<in> set (corner_image n ! 0)"
    by (rule nth_mem) (simp add: corner_image_nth)
  then have "1 \<in> set (corner_image n ! 0)"
    by (simp add: corner_image_nth)
  with row show "v \<in> nonzero_values (corner_image n)"
    unfolding v by auto
qed

lemma cluster_values_corner: "cluster_values (corner_image n) = [1]"
  using distinct_singleton [OF distinct_cluster_values, of "corner_image n" 1]
  by (simp add: set_cluster_values nonzero_values_corner)

lemma extract_masks_corner: "extract_masks_from_cluster (corner_image n) = [corner_mask n]"
proof -
  have "map (map (\<lambda>p. p = 1)) (corner_image n) = corner_mask n"
    by (simp add: corner_image_def corner_mask_def o_def del: upt_Suc)
  then show ?thesis
    by (simp add: extract_masks_from_cluster_def cluster_values_corner)
qed

lemma corner_mask_nth:
  "length (corner_mask n) = Suc n"
  "r \<le> n \<Longrightarrow> length (corner_mask n ! r) = Suc n"
  "r \<le> n \<Longrightarrow> c \<le> n \<Longrightarrow> corner_mask n ! r ! c \<longleftrightarrow> (r = 0 \<and> c = 0) \<or> (r = n \<and> c = n)"
  by (simp_all add: corner_mask_def del: upt_Suc)

lemma shape2_corner_mask: "shape2 (corner_mask n) = (Suc n, Suc n)"
  by (simp add: shape2_def corner_mask_def upt_conv_Cons del: upt_Suc)

lemma np_dstack_corner: "np_dstack [corner_mask n] = Inr (corner_stack n)"
proof -
  have "map (\<lambda>r. map (\<lambda>c. map (\<lambda>m'. m' ! r ! c) [corner_mask n]) [0..<Suc n]) [0..<Suc n]
          = corner_stack n"
    unfolding corner_stack_def
    by (intro map_cong refl) (simp add: corner_mask_nth less_Suc_eq_le del: upt_Suc)
  then show ?thesis
    by (simp add: np_dstack_def shape2_corner_mask del: upt_Suc)
qed

lemma depth_corner_stack: "depth (corner_stack n) = 1"
  by (simp add: depth_def corner_stack_def upt_conv_Cons del: upt_Suc)

lemma channel_corner_stack: "channel (corner_stack n) 0 = corner_mask n"
  by (simp add: channel_def corner_stack_def corner_mask_def o_def del: upt_Suc)

lemma true_pixels_corner: "set (true_pixels (corner_mask n)) = {(0, 0), (n, n)}"
proof -
  have px: "r < length (corner_mask n) \<and> c < length (corner_mask n ! r) \<and> corner_mask n ! r ! c
          \<longleftrightarrow> (r, c) = (0, 0) \<or> (r, c) = (n, n)" for r c
  proof (cases "r \<le> n \<and> c \<le> n")
    case True
    then show ?thesis
      by (simp add: corner_mask_nth less_Suc_eq_le del: length_greater_0_conv)
  next
    case False
    then have "\<not> (r < length (corner_mask n) \<and> c < length (corner_mask n ! r))"
      by (cases "r \<le> n") (simp_all add: corner_mask_nth less_Suc_eq_le del: length_greater_0_conv)
    with False show ?thesis by auto
  qed
  have "{(r, c). r < length (corner_mask n) \<and> c < length (corner_mask n ! r) \<and> corner_mask n ! r ! c}
          = {(0, 0), (n, n)}"
  proof (rule set_eqI)
    fix x :: "nat \<times> nat"
    obtain r c where x: "x = (r, c)" by (cases x)
    show "x \<in> {(r, c). r < length (corner_mask n) \<and> c < length (corner_mask n ! r)
                    \<and> corner_mask n ! r ! c} \<longleftrightarrow> x \<in> {(0, 0), (n, n)}"
      unfolding x by (simp only: mem_Collect_eq prod.case px insert_iff empty_iff simp_thms)
  qed
  then show ?thesis by (simp only: set_true_pixels)
qed

lemma bbox_of_corner_mask: "bbox_of_mask (corner_mask n) = (0, 0, int n + 1, int n + 1)"
proof -
  have "set (true_pixels (corner_mask n)) \<noteq> {}"
    by (simp add: true_pixels_corner)
  then have ne: "true_pixels (corner_mask n) \<noteq> []"
    by (simp only: set_empty not_False_eq_True)
  have "snd ` set (true_pixels (corner_mask n)) = {0, n}"
    and "fst ` set (true_pixels (corner_mask n)) = {0, n}"
    by (simp_all add: true_pixels_corner)
  then show ?thesis
    using ne by (simp add: bbox_of_mask_def Let_def)
qed

lemma extract_bboxes_corner:
  "extract_bboxes_from_mask (corner_stack n) = [(0, 0, int n + 1, int n + 1)]"
  by (simp add: extract_bboxes_from_mask_def depth_corner_stack channel_corner_stack
      bbox_of_corner_mask)

lemma ex_edf_big_sample:
  "EdfDataset_getitem ex_pil (spec_utils ex_big_labels) ex_edf_big 0 =
     Inr (''d/image/00001.png as RGB'',
          \<lparr>boxes = [(Finite 0, Finite 0, Finite 4097, Finite 4097)], labels = [1],
            masks = [corner_mask 4096], image_id = [0],
            area = [Finite 16785408], iscrowd = [0]\<rparr>)"
proof -
  have f: "float32_of_int 0 = Finite 0" "float32_of_int 4097 = Finite 4097"
    "float32_of_int 16785409 = Finite 16785408"
    by code_simp+
  show ?thesis
    by (simp add: EdfDataset_getitem_def EdfDataset_load_def ex_edf_big_def ex_big_labels_def
        ex_pil_def spec_utils_def py_index_def apply_transforms_def extract_masks_corner
        np_dstack_corner extract_bboxes_corner float32_box_def f)
qed

lemma ex_edf_big_boxes:
  "util_extract_bboxes_from_mask (spec_utils ex_big_labels) (corner_stack 4096)
     = Inr [(0, 0, 4097, 4097)]"
  by (simp add: spec_utils_def extract_bboxes_corner)

text \<open>
  C7 with the area as the integer \<open>(x1 - x0) * (y1 - y0)\<close> fails: for the box
  \<open>(0, 0, 4097, 4097)\<close> that product is 16785409, which has 25 binary digits and is odd,
  and the area returned is 16785408.
\<close>

theorem EdfDataset_getitem_area_exact_counterexample:
  "\<exists>img t. EdfDataset_getitem ex_pil (spec_utils ex_big_labels) ex_edf_big 0 = Inr (img, t)
      \<and> util_extract_bboxes_from_mask (spec_utils ex_big_labels) (corner_stack 4096)
           = Inr [(0, 0, 4097, 4097)]
      \<and> boxes t = [(Finite 0, Finite 0, Finite 4097, Finite 4097)]
      \<and> area t = [Finite 16785408]
      \<and> area t \<noteq> map (\<lambda>(x0, y0, x1, y1). Finite ((x1 - x0) * (y1 - y0))) [(0, 0, 4097, 4097)]"
  using ex_edf_big_sample ex_edf_big_boxes by simp

section \<open>The image id of a sample\<close>

lemma sorted_distinct_less_nth:
  assumes "sorted xs" and "distinct xs" and "i < length xs"
  shows "{x \<in> set xs. x < xs ! i} = set (take i xs)"
proof (intro set_eqI iffI)
  fix x :: 'a
  assume "x \<in> {x \<in> set xs. x < xs ! i}"
  then obtain j where j: "j < length xs" "x = xs ! j" and lt: "x < xs ! i"
    by (auto simp: in_set_conv_nth)
  have "j < i"
  proof (rule ccontr)
    assume "\<not> j < i"
    then have "xs ! i \<le> xs ! j"
      using assms(1) j(1) by (simp add: sorted_nth_mono)
    with lt j(2) show False by simp
  qed
  then show "x \<in> set (take i xs)"
    using j assms(3) by (auto simp: in_set_conv_nth)
next
  fix x :: 'a
  assume "x \<in> set (take i xs)"
  then obtain j where j: "j < i" "x = xs ! j"
    using assms(3) by (auto simp: in_set_conv_nth)
  then have "xs ! j \<le> xs ! i"
    using assms(1,3) by (simp add: sorted_nth_mono)
  moreover have "xs ! j \<noteq> xs ! i"
    using assms(2,3) j(1) by (simp add: nth_eq_iff_index_eq)
  ultimately show "x \<in> {x \<in> set xs. x < xs ! i}"
    using j assms(3) by auto
qed

lemma sorted_distinct_card_less:
  assumes "sorted xs" and "distinct xs" and "i < length xs"
  shows "card {x \<in> set xs. x < xs ! i} = i"
proof -
  have "card (set (take i xs)) = length (take i xs)"
    using assms(2) by (simp add: distinct_card)
  then show ?thesis
    using assms by (simp add: sorted_distinct_less_nth)
qed

lemma py_index_nonneg:
  assumes "py_index xs i = Inr x" and "0 \<le> i"
  shows "nat i < length xs" and "x = xs ! nat i"
  using assms by (auto simp: py_index_def split: if_splits)

lemma CrowdDataset_init_Inr:
  assumes "CrowdDataset_init COCO_load dataset_dir subset' tr load_small = Inr ds"
  shows "img_ids ds = sort (getImgIds (coco ds))" and "crowd_transforms ds = tr"
  using assms unfolding CrowdDataset_init_def
  by (auto simp: Let_def split: sum.splits)

lemma CrowdDataset_image_id:
  assumes ids: "img_ids ds = sort (getImgIds (coco ds))" and tr: "crowd_transforms ds = None"
    and ret: "CrowdDataset_getitem pil mu ds i = Inr (im, t)"
    and i: "0 \<le> i"
  shows "nat i < length (img_ids ds)" and "image_id t = [sort (getImgIds (coco ds)) ! nat i]"
proof -
  from ret tr obtain iid anno masks_np stacked where
    load: "CrowdDataset_load pil ds i = Inr (iid, im, anno, masks_np, stacked)"
    and iid: "image_id t = [iid]"
    by (rule CrowdDataset_getitem_Inr)
  note ix = py_index_nonneg [OF CrowdDataset_load_Inr(1) [OF load] i]
  from ix(1) show "nat i < length (img_ids ds)" .
  from ix(2) iid show "image_id t = [sort (getImgIds (coco ds)) ! nat i]"
    by (simp add: ids)
qed

lemma EdfDataset_image_id:
  assumes "EdfDataset_getitem pil mu ds i = Inr (img, t)" and "edf_transforms ds = None"
  shows "image_id t = [i]"
  using assms by (rule EdfDataset_getitem_Inr)

lemma CrowdDataset_image_id_rank:
  assumes ids: "img_ids ds = sort (getImgIds (coco ds))" and tr: "crowd_transforms ds = None"
    and dist: "distinct (getImgIds (coco ds))"
    and ret: "CrowdDataset_getitem pil mu ds j = Inr (im, u)" and j: "0 \<le> j"
  shows "\<exists>v. image_id u = [v] \<and> v \<in> set (getImgIds (coco ds))
           \<and> card {x \<in> set (getImgIds (coco ds)). x < v} = nat j"
proof -
  let ?ids = "getImgIds (coco ds)"
  note a = CrowdDataset_image_id [OF ids tr ret j]
  have srt: "sorted (sort ?ids)" and dst: "distinct (sort ?ids)" and st: "set (sort ?ids) = set ?ids"
    using dist by simp_all
  have len: "nat j < length (sort ?ids)"
    using a(1) by (simp add: ids)
  have "sort ?ids ! nat j \<in> set ?ids"
    using len st nth_mem by blast
  moreover have "card {x \<in> set ?ids. x < sort ?ids ! nat j} = nat j"
    using sorted_distinct_card_less [OF srt dst len] by (simp only: st)
  ultimately show ?thesis
    using a(2) by blast
qed

lemma CrowdDataset_image_id_inj:
  assumes ids: "img_ids ds = sort (getImgIds (coco ds))" and tr: "crowd_transforms ds = None"
    and dist: "distinct (getImgIds (coco ds))"
    and ret: "CrowdDataset_getitem pil mu ds j = Inr (im, u)" and j: "0 \<le> j"
    and ret2: "CrowdDataset_getitem pil mu ds j2 = Inr (im2, u2)" and j2: "0 \<le> j2"
    and ne: "j2 \<noteq> j"
  shows "image_id u2 \<noteq> image_id u"
proof -
  let ?ids = "getImgIds (coco ds)"
  note a = CrowdDataset_image_id [OF ids tr ret j]
  note b = CrowdDataset_image_id [OF ids tr ret2 j2]
  have dst: "distinct (sort ?ids)" using dist by simp
  have len: "nat j < length (sort ?ids)" and len2: "nat j2 < length (sort ?ids)"
    using a(1) b(1) by (simp_all add: ids)
  have "nat j2 \<noteq> nat j" using ne j j2 by simp
  then have "sort ?ids ! nat j2 \<noteq> sort ?ids ! nat j"
    using dst len len2 by (simp add: nth_eq_iff_index_eq)
  then show ?thesis
    using a(2) b(2) by simp
qed

text \<open>
  C10. An index is a position \<open>0 \<le> i < len\<close>, what a sampler hands to
  \<^verbatim>\<open>__getitem__\<close>. The sample returned is \<open>(img, t)\<close>, or the transform applied to it
  when one is set, \<open>(img, t)\<close> being what the call returns with no transform. In \<^verbatim>\<open>EdfDataset\<close>, \<open>image_id t = [i]\<close>, the index itself, whatever the
  file is called (for every \<open>i\<close> the call returns for). In a \<^verbatim>\<open>CrowdDataset\<close> built by
  \<^verbatim>\<open>__init__\<close> over an annotation source whose image ids are the keys of a dictionary,
  hence distinct, \<open>image_id t\<close> is the id with exactly \<open>i\<close> smaller ids in the source: the
  \<open>i\<close>-th smallest, counting from 0. Hence two different indices give different
  \<open>image_id\<close>s, in either dataset; for the samples as returned this is stated where no
  transform is set.
\<close>

theorem image_id_of_index:
  "(EdfDataset_getitem pil mu eds i = Inr s \<longrightarrow>
      (\<exists>img t. s = apply_transforms (edf_transforms eds) (img, t)
           \<and> EdfDataset_getitem pil mu (eds\<lparr>edf_transforms := None\<rparr>) i = Inr (img, t)
           \<and> image_id t = [i]))
   \<and> (edf_transforms eds = None \<longrightarrow> i2 \<noteq> i \<longrightarrow>
      EdfDataset_getitem pil mu eds i = Inr (img1, t1) \<longrightarrow>
      EdfDataset_getitem pil mu eds i2 = Inr (img2, t2) \<longrightarrow> image_id t2 \<noteq> image_id t1)
   \<and> (CrowdDataset_init COCO_load dataset_dir subset' tr load_small = Inr cds \<longrightarrow>
      distinct (getImgIds (coco cds)) \<longrightarrow> 0 \<le> j \<longrightarrow>
      CrowdDataset_getitem pil' mu' cds j = Inr s' \<longrightarrow>
      (\<exists>im u v. s' = apply_transforms tr (im, u)
           \<and> CrowdDataset_getitem pil' mu' (cds\<lparr>crowd_transforms := None\<rparr>) j = Inr (im, u)
           \<and> image_id u = [v] \<and> v \<in> set (getImgIds (coco cds))
           \<and> card {x \<in> set (getImgIds (coco cds)). x < v} = nat j))
   \<and> (CrowdDataset_init COCO_load dataset_dir subset' None load_small = Inr cds \<longrightarrow>
      distinct (getImgIds (coco cds)) \<longrightarrow> 0 \<le> j \<longrightarrow> 0 \<le> j2 \<longrightarrow> j2 \<noteq> j \<longrightarrow>
      CrowdDataset_getitem pil' mu' cds j = Inr (im1, u1) \<longrightarrow>
      CrowdDataset_getitem pil' mu' cds j2 = Inr (im2, u2) \<longrightarrow> image_id u2 \<noteq> image_id u1)"
proof -
  have edf: "\<exists>img t. s = apply_transforms (edf_transforms eds) (img, t)
           \<and> EdfDataset_getitem pil mu (eds\<lparr>edf_transforms := None\<rparr>) i = Inr (img, t)
           \<and> image_id t = [i]"
    if ret: "EdfDataset_getitem pil mu eds i = Inr s"
  proof -
    from ret obtain img t where s: "s = apply_transforms (edf_transforms eds) (img, t)"
      and raw: "EdfDataset_getitem pil mu (eds\<lparr>edf_transforms := None\<rparr>) i = Inr (img, t)"
      by (rule EdfDataset_getitem_sample)
    from EdfDataset_image_id [OF raw] s raw show ?thesis
      by (simp del: split_paired_Ex)
  qed
  have edf_inj: "image_id t2 \<noteq> image_id t1"
    if "edf_transforms eds = None" and "i2 \<noteq> i"
      and "EdfDataset_getitem pil mu eds i = Inr (img1, t1)"
      and "EdfDataset_getitem pil mu eds i2 = Inr (img2, t2)"
    using EdfDataset_image_id [OF that(3,1)] EdfDataset_image_id [OF that(4,1)] that(2) by simp
  have crowd: "\<exists>im u v. s' = apply_transforms tr (im, u)
           \<and> CrowdDataset_getitem pil' mu' (cds\<lparr>crowd_transforms := None\<rparr>) j = Inr (im, u)
           \<and> image_id u = [v] \<and> v \<in> set (getImgIds (coco cds))
           \<and> card {x \<in> set (getImgIds (coco cds)). x < v} = nat j"
    if init: "CrowdDataset_init COCO_load dataset_dir subset' tr load_small = Inr cds"
      and dist: "distinct (getImgIds (coco cds))" and j: "0 \<le> j"
      and ret: "CrowdDataset_getitem pil' mu' cds j = Inr s'"
  proof -
    note ds = CrowdDataset_init_Inr [OF init]
    from ret obtain im u where s: "s' = apply_transforms (crowd_transforms cds) (im, u)"
      and raw: "CrowdDataset_getitem pil' mu' (cds\<lparr>crowd_transforms := None\<rparr>) j = Inr (im, u)"
      by (rule CrowdDataset_getitem_sample)
    have "\<exists>v. image_id u = [v] \<and> v \<in> set (getImgIds (coco cds))
           \<and> card {x \<in> set (getImgIds (coco cds)). x < v} = nat j"
      using CrowdDataset_image_id_rank [OF _ _ _ raw j] ds(1) dist by simp
    with s ds(2) raw show ?thesis by blast
  qed
  have crowd_inj: "image_id u2 \<noteq> image_id u1"
    if init: "CrowdDataset_init COCO_load dataset_dir subset' None load_small = Inr cds"
      and dist: "distinct (getImgIds (coco cds))" and j: "0 \<le> j" "0 \<le> j2" "j2 \<noteq> j"
      and ret: "CrowdDataset_getitem pil' mu' cds j = Inr (im1, u1)"
        "CrowdDataset_getitem pil' mu' cds j2 = Inr (im2, u2)"
    using CrowdDataset_image_id_inj [OF CrowdDataset_init_Inr [OF init] dist ret(1) j(1) ret(2) j(2,3)] .
  from edf edf_inj crowd crowd_inj show ?thesis by blast
qed

theorem image_id_of_index_witness:
  "EdfDataset_getitem ex_pil (spec_utils ex_labels) ex_edf 0 =
     Inr (''d/image/00001.png as RGB'',
          \<lparr>boxes = [(Finite 0, Finite 1, Finite 1, Finite 3), (Finite 1, Finite 0, Finite 3, Finite 2)],
            labels = [1, 1],
            masks = [[[False, False, False, False], [True, False, False, False], [True, False, False, False]],
                     [[False, True, True, False], [False, False, True, False], [False, False, False, False]]],
            image_id = [0], area = [Finite 2, Finite 4], iscrowd = [0, 0]\<rparr>)
   \<and> edf_transforms ex_edf = None
   \<and> CrowdDataset_init ex_COCO_load ''crowd'' ''train'' None False = Inr ex_crowd
   \<and> distinct (getImgIds (coco ex_crowd))
   \<and> CrowdDataset_getitem ex_pil (spec_utils ex_labels) ex_crowd 2 =
     Inr (''crowd/train/images/c.jpg'',
          \<lparr>boxes = [(0, 0, 1, 1)], labels = [1],
            masks = [[[True, False, False], [False, False, False]]],
            image_id = [7], area = [2], iscrowd = [0]\<rparr>)
   \<and> (0::int) \<le> 2
   \<and> 7 \<in> set (getImgIds (coco ex_crowd))
   \<and> card {x \<in> set (getImgIds (coco ex_crowd)). x < 7} = 2
   \<and> [3] \<noteq> [7::int]"
proof -
  note inst = image_id_of_index [of ex_pil "spec_utils ex_labels" ex_edf 0 _ _ _ _ _ _
      ex_COCO_load "''crowd''" "''train''" None False ex_crowd 2 ex_pil "spec_utils ex_labels"]
  note c = inst [THEN conjunct2, THEN conjunct2, THEN conjunct1, rule_format,
      OF ex_crowd_init ex_coco_distinct _ ex_crowd_sample_2]
  have "\<exists>v. [7] = [v] \<and> v \<in> set (getImgIds (coco ex_crowd))
           \<and> card {x \<in> set (getImgIds (coco ex_crowd)). x < v} = nat 2"
    using c by (simp add: apply_transforms_def)
  then have "7 \<in> set (getImgIds (coco ex_crowd))"
    and "card {x \<in> set (getImgIds (coco ex_crowd)). x < 7} = 2"
    by auto
  then show ?thesis
    using ex_edf_sample_0 ex_edf_None ex_crowd_init ex_coco_distinct ex_crowd_sample_2 by simp
qed

text \<open>
  Python also takes a negative position, which counts from the end of the list: the
  last image of the example is reached at 2 and at \<open>-1\<close>, with the same id, while
  \<^verbatim>\<open>EdfDataset\<close> writes \<open>-1\<close> itself into \<open>image_id\<close>.
\<close>

lemma ex_negative_positions:
  "CrowdDataset_getitem ex_pil (spec_utils ex_labels) ex_crowd (- 1) =
     CrowdDataset_getitem ex_pil (spec_utils ex_labels) ex_crowd 2
   \<and> map_sum id (image_id \<circ> snd) (EdfDataset_getitem ex_pil (spec_utils ex_labels) ex_edf (- 1))
       = Inr [- 1]"
  using ex_crowd_sample_last ex_edf_sample_neg by simp

section \<open>The array handed to the box extractor\<close>

lemma np_dstack_Inr:
  assumes "np_dstack ms = Inr arr"
  shows "stacked_last ms arr"
proof -
  from assms obtain m ms' where ms: "ms = m # ms'"
    by (cases ms) (simp_all add: np_dstack_def)
  from assms have same: "\<forall>m'\<in>set ms. shape2 m' = shape2 (hd ms)"
    and arr: "arr = map (\<lambda>r. map (\<lambda>c. map (\<lambda>m'. m' ! r ! c) ms) [0..<snd (shape2 (hd ms))])
                      [0..<fst (shape2 (hd ms))]"
    unfolding ms by (simp_all add: np_dstack_def list_ex_iff split: if_splits)
  from ms have ne: "ms \<noteq> []" by simp
  have len: "length arr = fst (shape2 (hd ms))"
    by (simp add: arr)
  have rows: "\<forall>r<fst (shape2 (hd ms)). length (arr ! r) = snd (shape2 (hd ms))
           \<and> (\<forall>c<snd (shape2 (hd ms)). length (arr ! r ! c) = length ms
                 \<and> (\<forall>k<length ms. arr ! r ! c ! k = ms ! k ! r ! c))"
    by (simp add: arr)
  from ne same len rows show ?thesis by blast
qed

lemma EdfDataset_load_Inr:
  assumes "EdfDataset_load pil mu ds idx = Inr (img, ms, arr)"
  shows "np_dstack ms = Inr arr"
  using assms unfolding EdfDataset_load_def
  by (auto split: sum.splits)

text \<open>
  C5, as the code has it. In both datasets the argument of the box extractor is
  \<^verbatim>\<open>np.dstack\<close> of the instance masks, and the extractor is reached only when there is
  at least one mask: an array of shape height x width x instance-count, whose last axis
  indexes the instances, built from masks that share one height and width.
\<close>

theorem extractor_argument_layout:
  "(EdfDataset_load pil mu eds i = Inr (img, ms, arr) \<longrightarrow> stacked_last ms arr)
   \<and> (CrowdDataset_load pil' cds j = Inr (iid, im, anno, ms', arr') \<longrightarrow>
        ms' = map (annToMask (coco cds)) anno \<and> stacked_last ms' arr')"
  using np_dstack_Inr [OF EdfDataset_load_Inr, of pil mu eds i img ms arr]
    np_dstack_Inr [OF CrowdDataset_load_Inr(4), of pil' cds j iid im anno ms' arr']
    CrowdDataset_load_Inr(3) [of pil' cds j iid im anno ms' arr']
  by blast

theorem extractor_argument_layout_witness:
  "EdfDataset_load ex_pil (spec_utils ex_labels) ex_edf 0 =
     Inr (''d/image/00001.png as RGB'', ex_edf_masks, ex_edf_stacked)
   \<and> CrowdDataset_load ex_pil ex_crowd 0 =
     Inr (3, ''crowd/train/images/a.jpg'', ex_crowd_anno, ex_crowd_masks, ex_crowd_stacked)
   \<and> length ex_edf_stacked = fst (shape2 (hd ex_edf_masks))
   \<and> length (ex_edf_stacked ! 0) = snd (shape2 (hd ex_edf_masks))
   \<and> length (ex_edf_stacked ! 0 ! 0) = length ex_edf_masks
   \<and> shape2 (hd ex_edf_masks) = (3, 4) \<and> length ex_edf_masks = 2
   \<and> ex_crowd_masks = map (annToMask (coco ex_crowd)) ex_crowd_anno
   \<and> length ex_crowd_stacked = fst (shape2 (hd ex_crowd_masks))
   \<and> shape2 (hd ex_crowd_masks) = (2, 3)"
proof -
  note e = extractor_argument_layout [THEN conjunct1, rule_format, OF ex_edf_load]
  note c = extractor_argument_layout [THEN conjunct2, rule_format, OF ex_crowd_load]
  note e_len = e [THEN conjunct2, THEN conjunct2, THEN conjunct1]
  have e_shape: "shape2 (hd ex_edf_masks) = (3, 4)" and e_n: "length ex_edf_masks = 2"
    by (simp_all add: ex_edf_masks_def shape2_def)
  have c_shape: "shape2 (hd ex_crowd_masks) = (2, 3)"
    by (simp add: ex_crowd_masks_def shape2_def)
  note e_rows = e [THEN conjunct2, THEN conjunct2, THEN conjunct2, rule_format, of 0]
  have e_row: "length (ex_edf_stacked ! 0) = snd (shape2 (hd ex_edf_masks))"
    using e_rows [THEN conjunct1] by (simp add: e_shape)
  have e_col: "length (ex_edf_stacked ! 0 ! 0) = length ex_edf_masks"
    using e_rows [THEN conjunct2, rule_format, of 0, THEN conjunct1] by (simp add: e_shape)
  note c_ms = c [THEN conjunct1]
  note c_len = c [THEN conjunct2, THEN conjunct2, THEN conjunct2, THEN conjunct1]
  from ex_edf_load ex_crowd_load e_len e_row e_col e_shape e_n c_ms c_len c_shape
  show ?thesis
    by (intro conjI)
qed

text \<open>
  C5 as stated fails: for the label image of the example, with two instances of 3 rows
  and 4 columns, the first axis of the argument has length 3, not 2, and its first
  entry is not the first mask.
\<close>

theorem extractor_argument_first_axis_counterexample:
  "EdfDataset_load ex_pil (spec_utils ex_labels) ex_edf 0 =
     Inr (''d/image/00001.png as RGB'', ex_edf_masks, ex_edf_stacked)
   \<and> length ex_edf_masks = 2 \<and> shape2 (hd ex_edf_masks) = (3, 4)
   \<and> length ex_edf_stacked = 3 \<and> length ex_edf_stacked \<noteq> length ex_edf_masks
   \<and> ex_edf_stacked ! 0 \<noteq> ex_edf_masks ! 0"
  using ex_edf_load by (simp add: ex_edf_masks_def ex_edf_stacked_def shape2_def)

section \<open>The consistency check\<close>

lemma check_loop_filter:
  "check_loop ps =
     (if filter (\<lambda>(i, j). py_slice i (- 9) (- 4) \<noteq> py_slice j (- 9) (- 4)) ps = [] then []
      else [''Image and label do not match.''])"
  by (induction ps rule: check_loop.induct) auto

lemma py_slice_tail:
  assumes "9 \<le> length p"
  shows "py_slice p (- 9) (- 4) = take 5 (drop (length p - 9) p)"
proof -
  from assms have "py_bound (length p) (- 9) = length p - 9" and "py_bound (length p) (- 4) = length p - 4"
    by (simp_all add: py_bound_def nat_diff_distrib')
  moreover from assms have "length p - 4 - (length p - 9) = 5" by simp
  ultimately show ?thesis by (simp add: py_slice_def)
qed

text \<open>
  C9, as the code has it. \<^verbatim>\<open>check\<close> walks the pairs of \<^verbatim>\<open>zip(img_paths, mask_paths)\<close>,
  comparing the slices \<^verbatim>\<open>[-9:-4]\<close> of the two paths, and leaves the loop at the first
  pair that differs: it prints one warning when some pair differs and nothing
  otherwise. It returns normally in every case: no step of it can raise. For a path of
  at least 9 characters the slice is the 5 characters that start 9 from the end.
\<close>

theorem EdfDataset_check_first_mismatch:
  "EdfDataset_check ds = (if mismatches ds = [] then [] else [''Image and label do not match.''])
   \<and> length (EdfDataset_check ds) \<le> 1
   \<and> (\<forall>p. 9 \<le> length p \<longrightarrow> py_slice p (- 9) (- 4) = take 5 (drop (length p - 9) p))"
  by (simp add: EdfDataset_check_def check_loop_filter py_slice_tail)

lemma ex_edf_mixed_mismatches:
  "mismatches ex_edf_mixed =
     [(''d/image/00001.png'', ''d/label/00003.png''), (''d/image/00002.png'', ''d/label/00004.png'')]"
  by code_simp

lemma ex_edf_matches: "mismatches ex_edf = []"
  by code_simp

theorem EdfDataset_check_first_mismatch_witness:
  "mismatches ex_edf = [] \<and> EdfDataset_check ex_edf = []
   \<and> mismatches ex_edf_mixed \<noteq> []
   \<and> EdfDataset_check ex_edf_mixed = [''Image and label do not match.'']
   \<and> py_slice ''d/image/00001.png'' (- 9) (- 4) = ''00001''"
proof -
  note a = EdfDataset_check_first_mismatch [of ex_edf]
  note b = EdfDataset_check_first_mismatch [of ex_edf_mixed]
  have "(9::nat) \<le> length ''d/image/00001.png''" by simp
  from a [THEN conjunct2, THEN conjunct2, rule_format, OF this]
  have s: "py_slice ''d/image/00001.png'' (- 9) (- 4) = ''00001''" by simp
  have m: "mismatches ex_edf_mixed \<noteq> []"
    by (simp add: ex_edf_mixed_mismatches)
  from a [THEN conjunct1] have c1: "EdfDataset_check ex_edf = []"
    by (simp only: ex_edf_matches simp_thms if_True)
  from b [THEN conjunct1] m have c2: "EdfDataset_check ex_edf_mixed = [''Image and label do not match.'']"
    by (simp only: simp_thms if_False)
  from ex_edf_matches c1 m c2 s show ?thesis
    by (intro conjI)
qed

text \<open>
  C9 as stated fails: with two pairs that both differ, one warning is printed, not two.
\<close>

theorem EdfDataset_check_every_mismatch_counterexample:
  "length (mismatches ex_edf_mixed) = 2
   \<and> length (EdfDataset_check ex_edf_mixed) = 1"
  by (simp add: ex_edf_mixed_mismatches EdfDataset_check_def check_loop_filter)

section \<open>The lengths of the arrays of a sample\<close>

text \<open>
  What holds of every sample \<^verbatim>\<open>CrowdDataset.__getitem__\<close> returns: \<open>boxes\<close>, \<open>labels\<close>
  and \<open>masks\<close> went through the filter \<open>keep\<close> and have one length; \<open>area\<close> and
  \<open>iscrowd\<close> are read from \<open>anno\<close> after it and have the length of \<open>anno\<close>, which is
  at least that; and \<open>anno\<close> is not empty.
\<close>

lemma CrowdDataset_getitem_lengths:
  assumes "CrowdDataset_getitem pil mu ds idx = Inr (im, t)" and "crowd_transforms ds = None"
  shows "length (boxes t) = length (masks t)" and "length (labels t) = length (masks t)"
    and "length (area t) = length (iscrowd t)" and "length (masks t) \<le> length (area t)"
    and "iscrowd t \<noteq> []"
proof -
  from assms obtain iid anno masks_np stacked bboxes where
    load: "CrowdDataset_load pil ds idx = Inr (iid, im, anno, masks_np, stacked)"
    and bx: "boxes t = filter valid_box bboxes"
    and lb: "bool_index (replicate (length anno) 1) (map valid_box bboxes) = Inr (labels t)"
    and ms: "bool_index masks_np (map valid_box bboxes) = Inr (masks t)"
    and ar: "area t = map ann_area anno"
    and cr: "iscrowd t = map ann_iscrowd anno"
    by (rule CrowdDataset_getitem_Inr)
  note l = CrowdDataset_load_Inr [OF load]
  have "bool_index bboxes (map valid_box bboxes) = Inr (boxes t)"
    by (simp add: bx bool_index_map_pred)
  from bool_index_lengths [OF this ms] show "length (boxes t) = length (masks t)" .
  from bool_index_lengths [OF lb ms] show "length (labels t) = length (masks t)" .
  show "length (area t) = length (iscrowd t)" by (simp add: ar cr)
  show "length (masks t) \<le> length (area t)"
    using bool_index_Inr(3) [OF ms] by (simp add: ar l(3))
  have "masks_np \<noteq> []"
    using l(4) by (auto simp: np_dstack_def)
  then show "iscrowd t \<noteq> []" by (simp add: cr l(3))
qed

lemma depth_np_dstack:
  assumes "np_dstack ms = Inr arr" and "0 < fst (shape2 (hd ms))" and "0 < snd (shape2 (hd ms))"
  shows "depth arr = length ms"
proof -
  note st = np_dstack_Inr [OF assms(1)]
  note len = st [THEN conjunct2, THEN conjunct2, THEN conjunct1]
  note rows = st [THEN conjunct2, THEN conjunct2, THEN conjunct2, rule_format, OF assms(2)]
  note cols = rows [THEN conjunct2, rule_format, OF assms(3)]
  from len assms(2) obtain row rest where arr: "arr = row # rest"
    by (cases arr) simp_all
  from rows [THEN conjunct1] assms(3) arr obtain v vs where row: "row = v # vs"
    by (cases row) simp_all
  from cols [THEN conjunct1] show ?thesis
    by (simp add: depth_def arr row)
qed

text \<open>
  The extractor as specified returns one box for each mask of a stack of images that are
  not empty.
\<close>

lemma length_extract_bboxes_np_dstack:
  assumes "np_dstack ms = Inr arr" and "0 < fst (shape2 (hd ms))" and "0 < snd (shape2 (hd ms))"
  shows "length (extract_bboxes_from_mask arr) = length ms"
  using depth_np_dstack [OF assms] by (simp add: extract_bboxes_from_mask_def)

text \<open>
  In \<^verbatim>\<open>EdfDataset.__getitem__\<close> nothing is filtered: \<open>labels\<close>, \<open>masks\<close> and \<open>iscrowd\<close>
  have the number of masks as their length, \<open>boxes\<close> and \<open>area\<close> the number of boxes the
  extractor returned.
\<close>

lemma EdfDataset_getitem_lengths:
  assumes "EdfDataset_getitem pil mu ds idx = Inr (img, t)" and "edf_transforms ds = None"
  shows "length (labels t) = length (masks t)" and "length (iscrowd t) = length (masks t)"
    and "length (area t) = length (boxes t)" and "masks t \<noteq> []"
proof -
  from assms obtain mask_ch_first stacked bboxes where
    load: "EdfDataset_load pil mu ds idx = Inr (img, mask_ch_first, stacked)"
    and t: "boxes t = map float32_box bboxes" "labels t = replicate (length mask_ch_first) 1"
      "masks t = mask_ch_first"
      "area t = map (\<lambda>(x0, y0, x1, y1). float32_mul (float32_sub y1 y0) (float32_sub x1 x0))
                  (map float32_box bboxes)"
      "iscrowd t = replicate (length mask_ch_first) 0"
    by (rule EdfDataset_getitem_Inr)
  from t show "length (labels t) = length (masks t)" and "length (iscrowd t) = length (masks t)"
    and "length (area t) = length (boxes t)"
    by simp_all
  from np_dstack_Inr [OF EdfDataset_load_Inr [OF load], THEN conjunct1] t(3)
  show "masks t \<noteq> []"
    by simp
qed

text \<open>
  The two lengths agree exactly when \<open>keep\<close> dropped nothing, that is, when every box
  the extractor returned is wider and taller than 0; this holds for every extractor.
\<close>

lemma length_filter_eq_iff: "length (filter P xs) = length xs \<longleftrightarrow> list_all P xs"
proof -
  have "length (filter P xs) + length (filter (\<lambda>x. \<not> P x) xs) = length xs"
    by (rule sum_length_filter_compl)
  moreover have "length (filter (\<lambda>x. \<not> P x) xs) = 0 \<longleftrightarrow> list_all P xs"
    by (simp add: filter_empty_conv list_all_iff)
  ultimately show ?thesis by arith
qed

lemma CrowdDataset_getitem_dropped_boxes:
  assumes "CrowdDataset_getitem pil mu ds idx = Inr (im, t)" and "crowd_transforms ds = None"
  shows "\<exists>iid anno ms arr bboxes.
           CrowdDataset_load pil ds idx = Inr (iid, im, anno, ms, arr)
           \<and> util_extract_bboxes_from_mask mu arr = Inr bboxes
           \<and> boxes t = filter valid_box bboxes
           \<and> length (area t) = length bboxes
           \<and> (length (boxes t) = length (area t) \<longleftrightarrow> list_all valid_box bboxes)"
proof -
  from assms obtain iid anno masks_np stacked bboxes where
    load: "CrowdDataset_load pil ds idx = Inr (iid, im, anno, masks_np, stacked)"
    and ex: "util_extract_bboxes_from_mask mu stacked = Inr bboxes"
    and bx: "boxes t = filter valid_box bboxes"
    and lb: "bool_index (replicate (length anno) 1) (map valid_box bboxes) = Inr (labels t)"
    and ar: "area t = map ann_area anno"
    by (rule CrowdDataset_getitem_Inr)
  from bool_index_Inr(1) [OF lb] have len: "length (area t) = length bboxes"
    by (simp add: ar)
  have "length (boxes t) = length (area t) \<longleftrightarrow> list_all valid_box bboxes"
    unfolding len bx by (rule length_filter_eq_iff)
  with load ex bx len show ?thesis by blast
qed

text \<open>
  C1 fails on the code. Image 3 of the example has two annotations that are not crowd;
  the first decodes to a mask with no true pixel, its box \<open>(0, 0, 0, 0)\<close> is dropped by
  \<open>keep\<close>, and the sample has one box, one label and one mask, but two areas and two
  crowd flags. The docstring of \<^verbatim>\<open>__getitem__\<close> gives all five the length \<open>N\<close>.
\<close>

theorem CrowdDataset_getitem_cardinality_fails:
  "\<exists>im t. CrowdDataset_getitem ex_pil (spec_utils ex_labels) ex_crowd 0 = Inr (im, t)
     \<and> length (boxes t) = 1 \<and> length (labels t) = 1 \<and> length (masks t) = 1
     \<and> length (area t) = 2 \<and> length (iscrowd t) = 2"
  by (simp add: ex_crowd_sample_0)

text \<open>
  \<open>area\<close> and \<open>iscrowd\<close> are copied from the annotation records, never computed from
  the boxes: they are the fields of all annotations of the image that are not crowd, in
  order. They line up with \<open>masks\<close> when \<open>keep\<close> dropped no box.
\<close>

lemma bool_index_all_kept:
  assumes "bool_index xs (map P ys) = Inr zs" and "list_all P ys"
  shows "zs = xs"
proof -
  from assms(1) have len: "length ys = length xs"
    and zs: "zs = map fst (filter snd (zip xs (map P ys)))"
    by (simp_all add: bool_index_def split: if_splits)
  from len assms(2) have "map fst (filter snd (zip xs (map P ys))) = xs"
  proof (induction ys xs rule: list_induct2')
    case (4 y ys x xs) then show ?case by simp
  qed simp_all
  with zs show ?thesis by simp
qed

lemma CrowdDataset_getitem_area_verbatim:
  assumes "CrowdDataset_getitem pil mu ds idx = Inr (im, t)" and "crowd_transforms ds = None"
  shows "\<exists>v bboxes.
           image_id t = [v]
           \<and> area t = map ann_area
                 (filter (\<lambda>obj. ann_iscrowd obj = 0) (loadAnns (coco ds) (getAnnIds (coco ds) v)))
           \<and> iscrowd t = map ann_iscrowd
                 (filter (\<lambda>obj. ann_iscrowd obj = 0) (loadAnns (coco ds) (getAnnIds (coco ds) v)))
           \<and> boxes t = filter valid_box bboxes
           \<and> (list_all valid_box bboxes \<longrightarrow>
                 masks t = map (annToMask (coco ds))
                   (filter (\<lambda>obj. ann_iscrowd obj = 0) (loadAnns (coco ds) (getAnnIds (coco ds) v))))"
proof -
  from assms obtain iid anno masks_np stacked bboxes where
    load: "CrowdDataset_load pil ds idx = Inr (iid, im, anno, masks_np, stacked)"
    and bx: "boxes t = filter valid_box bboxes"
    and ms: "bool_index masks_np (map valid_box bboxes) = Inr (masks t)"
    and iid: "image_id t = [iid]"
    and ar: "area t = map ann_area anno"
    and cr: "iscrowd t = map ann_iscrowd anno"
    by (rule CrowdDataset_getitem_Inr)
  note l = CrowdDataset_load_Inr [OF load]
  have "masks t = masks_np" if "list_all valid_box bboxes"
    using bool_index_all_kept [OF ms that] .
  then show ?thesis
    using iid ar cr bx l(2,3) by blast
qed

text \<open>
  C6 fails on the code at the same sample, by the same omission. The one instance that
  is emitted stems from the second annotation, whose record has area 9; entry 0 of
  \<open>area\<close> is 5, the area of the first annotation, whose instance was dropped.
\<close>

theorem CrowdDataset_getitem_area_of_dropped_instance:
  "\<exists>im t. CrowdDataset_getitem ex_pil (spec_utils ex_labels) ex_crowd 0 = Inr (im, t)
     \<and> masks t = [annToMask (coco ex_crowd) (loadAnns (coco ex_crowd) (getAnnIds (coco ex_crowd) 3) ! 1)]
     \<and> ann_area (loadAnns (coco ex_crowd) (getAnnIds (coco ex_crowd) 3) ! 1) = 9
     \<and> area t ! 0 = ann_area (loadAnns (coco ex_crowd) (getAnnIds (coco ex_crowd) 3) ! 0)
     \<and> area t ! 0 = 5"
  by (simp add: ex_crowd_sample_0) (simp add: ex_crowd_def ex_coco_def)

section \<open>An image without instances\<close>

text \<open>
  When no annotation of the image is left by the crowd filter, \<^verbatim>\<open>np.dstack\<close> has
  nothing to concatenate and the call raises, before the box extractor is reached.
\<close>

lemma CrowdDataset_getitem_no_instances:
  assumes "py_index (img_ids ds) idx = Inr iid"
    and "filter (\<lambda>obj. ann_iscrowd obj = 0) (loadAnns (coco ds) (getAnnIds (coco ds) iid)) = []"
  shows "\<exists>e. CrowdDataset_getitem pil mu ds idx = Inl e"
  using assms unfolding CrowdDataset_getitem_def CrowdDataset_load_def
  by (auto simp: Let_def np_dstack_def split: sum.splits)

text \<open>
  C8 fails on the code. Image 5 of the example, at index 1, has no annotation and its
  file opens; \<^verbatim>\<open>__getitem__\<close> raises \<^verbatim>\<open>ValueError\<close> and returns no sample.
\<close>

theorem CrowdDataset_getitem_no_annotation_raises:
  "py_index (img_ids ex_crowd) 1 = Inr 5
   \<and> loadAnns (coco ex_crowd) (getAnnIds (coco ex_crowd) 5) = []
   \<and> Image_open ex_pil ''crowd/train/images/b.jpg'' = Inr ''crowd/train/images/b.jpg''
   \<and> CrowdDataset_getitem ex_pil (spec_utils ex_labels) ex_crowd 1 = Inl ValueError"
  by code_simp

end
